theory Spec2Isabelle
  imports Main
begin

section \<open>The EKS add-on resource: \<^verbatim>\<open>internal/service/eks/addon.go\<close>\<close>

text \<open>
  A shallow embedding of the four lifecycle operations of the add-on resource
  (\<^verbatim>\<open>resourceAddonCreate\<close>, \<^verbatim>\<open>resourceAddonRead\<close>, \<^verbatim>\<open>resourceAddonUpdate\<close>,
  \<^verbatim>\<open>resourceAddonDelete\<close>). Every call the Go code makes on the remote service, and
  every \<^verbatim>\<open>d.SetId\<close>, is an explicit step on a \<open>world\<close> value that is passed through
  the operation and returned; each step is also appended to a log of events, so that
  what was sent, in which order, can be stated.
\<close>

subsection \<open>Go values\<close>

text \<open>
  A Go \<^verbatim>\<open>error\<close> is modelled by what the code observes of it: the type that
  \<^verbatim>\<open>errs.IsA[T]\<close> finds in its chain, and the text of \<^verbatim>\<open>err.Error()\<close>.
  A \<^verbatim>\<open>nil\<close> error is \<open>None\<close>.
\<close>

datatype err_type = InvalidParameterException | ResourceNotFoundException | OtherError

datatype error = GoError (err_type: err_type) (err_Error: string)

definition errs_IsA :: "err_type \<Rightarrow> error option \<Rightarrow> bool" where
  "errs_IsA t err = (case err of None \<Rightarrow> False | Some e \<Rightarrow> err_type e = t)"

fun strings_HasPrefix :: "string \<Rightarrow> string \<Rightarrow> bool" where
  "strings_HasPrefix s [] = True"
| "strings_HasPrefix [] (p # ps) = False"
| "strings_HasPrefix (c # cs) (p # ps) = (c = p \<and> strings_HasPrefix cs ps)"

fun strings_Contains :: "string \<Rightarrow> string \<Rightarrow> bool" where
  "strings_Contains [] substr = (substr = [])"
| "strings_Contains (c # cs) substr =
     (strings_HasPrefix (c # cs) substr \<or> strings_Contains cs substr)"

definition aws_ToString :: "string option \<Rightarrow> string" where
  "aws_ToString p = (case p of None \<Rightarrow> [] | Some v \<Rightarrow> v)"

text \<open>
  \<^verbatim>\<open>%q\<close> of \<^verbatim>\<open>fmt.Sprintf\<close>: the text between double quotes. The code applies it
  only to attribute names and to \<^verbatim>\<open>OVERWRITE\<close>, none of which has a character that
  Go would escape.
\<close>

definition fmt_q :: "string \<Rightarrow> string" where
  "fmt_q v = CHR 0x22 # v @ [CHR 0x22]"

subsection \<open>Diagnostics\<close>

datatype severity = diag_Error | diag_Warning

record Diagnostic =
  Severity :: severity
  Summary :: string

type_synonym Diagnostics = "Diagnostic list"

text \<open>
  The helpers of \<^verbatim>\<open>internal/errs/sdkdiag\<close> return the extended slice; they do not
  change the slice they are given. Their format string and arguments are written here
  as the formatted text.
\<close>

definition sdkdiag_AppendErrorf :: "Diagnostics \<Rightarrow> string \<Rightarrow> Diagnostics" where
  "sdkdiag_AppendErrorf diags text = diags @ [\<lparr>Severity = diag_Error, Summary = text\<rparr>]"

definition sdkdiag_AppendWarningf :: "Diagnostics \<Rightarrow> string \<Rightarrow> Diagnostics" where
  "sdkdiag_AppendWarningf diags text = diags @ [\<lparr>Severity = diag_Warning, Summary = text\<rparr>]"

definition sdkdiag_AppendFromErr :: "Diagnostics \<Rightarrow> error \<Rightarrow> Diagnostics" where
  "sdkdiag_AppendFromErr diags err = diags @ [\<lparr>Severity = diag_Error, Summary = err_Error err\<rparr>]"

definition HasError :: "Diagnostics \<Rightarrow> bool" where
  "HasError diags = list_ex (\<lambda>x. Severity x = diag_Error) diags"

subsection \<open>The resource data \<^verbatim>\<open>d\<close>\<close>

text \<open>
  \<^verbatim>\<open>schema.ResourceData\<close>: the identifier, the new-resource mark, and for every
  attribute its value in the prior state and its value now. An attribute that is not
  set has the zero value of its type, as \<^verbatim>\<open>d.Get\<close> returns it.
\<close>

record ResourceData =
  rd_id :: string
  rd_isNew :: bool
  rd_old :: "string \<Rightarrow> string"
  rd_new :: "string \<Rightarrow> string"
  rd_bool :: "string \<Rightarrow> bool"
  rd_timeout :: "string \<Rightarrow> nat"

definition d_Id :: "ResourceData \<Rightarrow> string" where
  "d_Id d = rd_id d"

definition d_SetId :: "string \<Rightarrow> ResourceData \<Rightarrow> ResourceData" where
  "d_SetId v d = d\<lparr>rd_id := v\<rparr>"

definition d_IsNewResource :: "ResourceData \<Rightarrow> bool" where
  "d_IsNewResource d = rd_isNew d"

definition d_Get :: "ResourceData \<Rightarrow> string \<Rightarrow> string" where
  "d_Get d key = rd_new d key"

text \<open>\<^verbatim>\<open>d.GetOk\<close>: the value, and whether it differs from the zero value.\<close>

definition d_GetOk :: "ResourceData \<Rightarrow> string \<Rightarrow> string \<times> bool" where
  "d_GetOk d key = (rd_new d key, rd_new d key \<noteq> [])"

definition d_GetOk_bool :: "ResourceData \<Rightarrow> string \<Rightarrow> bool \<times> bool" where
  "d_GetOk_bool d key = (rd_bool d key, rd_bool d key)"

definition d_HasChange :: "ResourceData \<Rightarrow> string \<Rightarrow> bool" where
  "d_HasChange d key = (rd_old d key \<noteq> rd_new d key)"

definition d_HasChanges :: "ResourceData \<Rightarrow> string list \<Rightarrow> bool" where
  "d_HasChanges d keys = list_ex (d_HasChange d) keys"

definition d_Set :: "string \<Rightarrow> string \<Rightarrow> ResourceData \<Rightarrow> ResourceData" where
  "d_Set key v d = d\<lparr>rd_new := (rd_new d)(key := v)\<rparr>"

definition d_Timeout :: "ResourceData \<Rightarrow> string \<Rightarrow> nat" where
  "d_Timeout d key = rd_timeout d key"

definition schema_TimeoutCreate :: string where "schema_TimeoutCreate = ''create''"
definition schema_TimeoutUpdate :: string where "schema_TimeoutUpdate = ''update''"
definition schema_TimeoutDelete :: string where "schema_TimeoutDelete = ''delete''"

subsection \<open>Requests and responses of the remote service\<close>

record CreateAddonInput =
  Create_AddonName :: "string option"
  Create_ClientRequestToken :: "string option"
  Create_ClusterName :: "string option"
  Create_Tags :: "string \<rightharpoonup> string"
  Create_AddonVersion :: "string option"
  Create_ConfigurationValues :: "string option"
  Create_ResolveConflicts :: string
  Create_ServiceAccountRoleArn :: "string option"

record DescribeAddonInput =
  Describe_AddonName :: "string option"
  Describe_ClusterName :: "string option"

record UpdateAddonInput =
  Update_AddonName :: "string option"
  Update_ClientRequestToken :: "string option"
  Update_ClusterName :: "string option"
  Update_AddonVersion :: "string option"
  Update_ConfigurationValues :: "string option"
  Update_ResolveConflicts :: string
  Update_ServiceAccountRoleArn :: "string option"

record DeleteAddonInput =
  Delete_AddonName :: "string option"
  Delete_ClusterName :: "string option"
  Delete_Preserve :: bool

text \<open>
  \<^verbatim>\<open>types.Addon\<close>, the fields the read copies. The two times are kept as their
  RFC 3339 text; \<^verbatim>\<open>aws.ToTime\<close> of \<^verbatim>\<open>nil\<close> is the zero time.
\<close>

record Addon =
  Addon_AddonName :: "string option"
  Addon_AddonVersion :: "string option"
  Addon_AddonArn :: "string option"
  Addon_ClusterName :: "string option"
  Addon_ConfigurationValues :: "string option"
  Addon_CreatedAt :: "string option"
  Addon_ModifiedAt :: "string option"
  Addon_ServiceAccountRoleArn :: "string option"
  Addon_Tags :: "string \<rightharpoonup> string"

definition format_RFC3339 :: "string option \<Rightarrow> string" where
  "format_RFC3339 t = (case t of None \<Rightarrow> ''0001-01-01T00:00:00Z'' | Some v \<Rightarrow> v)"

text \<open>
  \<^verbatim>\<open>eks.UpdateAddonOutput\<close>: \<open>Output_Update\<close> is the pointer \<^verbatim>\<open>output.Update\<close>,
  \<open>Update_Id\<close> the pointer \<^verbatim>\<open>Update.Id\<close>.
\<close>

record Update =
  Update_Id :: "string option"

record UpdateAddonOutput =
  Output_Update :: "Update option"

definition types_ResolveConflictsOverwrite :: string where
  "types_ResolveConflictsOverwrite = ''OVERWRITE''"

subsection \<open>The world an operation runs in\<close>

text \<open>
  The steps an operation takes, in order. A call on the remote service is logged with
  the request it sent and the error it returned (\<open>None\<close> for success).
\<close>

datatype event =
    CreateAddon_ev CreateAddonInput "error option"
  | SetId_ev string
  | AddonActiveWait_ev DescribeAddonInput nat "error option"
  | FindAddon_ev string string "error option"
  | UpdateAddon_ev UpdateAddonInput "error option"
  | AddonUpdateWait_ev string string string nat "error option"
  | DeleteAddon_ev DeleteAddonInput "error option"
  | AddonDeletedWait_ev DescribeAddonInput nat "error option"

text \<open>
  What the file calls and does not define. The remote service (the SDK client, its
  waiters, and the finder and the update waiter of the package) acts on a state
  \<open>'r\<close> of its own, about which nothing is assumed. The identifier codec and
  \<^verbatim>\<open>propagationTimeout\<close> are declared elsewhere in the package, and
  \<^verbatim>\<open>sdkid.UniqueId\<close> in the plugin SDK: \<open>UniqueId env n\<close> is the \<open>n\<close>-th
  identifier the process hands out, and \<open>propagationTimeout env\<close> is the budget in the
  unit of \<open>RetryWhen\<close> below.
\<close>

record 'r env =
  CreateAddon :: "CreateAddonInput \<Rightarrow> 'r \<Rightarrow> error option \<times> 'r"
  AddonActiveWaiter_Wait :: "DescribeAddonInput \<Rightarrow> nat \<Rightarrow> 'r \<Rightarrow> error option \<times> 'r"
  FindAddonByClusterNameAndAddonName :: "string \<Rightarrow> string \<Rightarrow> 'r \<Rightarrow> (error + Addon) \<times> 'r"
  UpdateAddon :: "UpdateAddonInput \<Rightarrow> 'r \<Rightarrow> (error + UpdateAddonOutput) \<times> 'r"
  waitAddonUpdateSuccessful :: "string \<Rightarrow> string \<Rightarrow> string \<Rightarrow> nat \<Rightarrow> 'r \<Rightarrow> error option \<times> 'r"
  DeleteAddon :: "DeleteAddonInput \<Rightarrow> 'r \<Rightarrow> error option \<times> 'r"
  AddonDeletedWaiter_Wait :: "DescribeAddonInput \<Rightarrow> nat \<Rightarrow> 'r \<Rightarrow> error option \<times> 'r"
  AddonCreateResourceID :: "string \<Rightarrow> string \<Rightarrow> string"
  AddonParseResourceID :: "string \<Rightarrow> error + string \<times> string"
  UniqueId :: "nat \<Rightarrow> string"
  propagationTimeout :: nat

record 'r world =
  rdata :: ResourceData
  remote :: 'r
  uid_count :: nat
  tags_in :: "string \<rightharpoonup> string"
  tags_out :: "string \<rightharpoonup> string"
  events :: "event list"

definition sdkid_UniqueId :: "'r env \<Rightarrow> 'r world \<Rightarrow> string \<times> 'r world" where
  "sdkid_UniqueId env s = (UniqueId env (uid_count s), s\<lparr>uid_count := Suc (uid_count s)\<rparr>)"

definition getTagsIn :: "'r world \<Rightarrow> string \<rightharpoonup> string" where
  "getTagsIn s = tags_in s"

definition setTagsOut :: "(string \<rightharpoonup> string) \<Rightarrow> 'r world \<Rightarrow> 'r world" where
  "setTagsOut tags s = s\<lparr>tags_out := tags\<rparr>"

definition SetId :: "string \<Rightarrow> 'r world \<Rightarrow> 'r world" where
  "SetId v s = s\<lparr>rdata := d_SetId v (rdata s), events := events s @ [SetId_ev v]\<rparr>"

definition Set_attr :: "string \<Rightarrow> string \<Rightarrow> 'r world \<Rightarrow> 'r world" where
  "Set_attr key v s = s\<lparr>rdata := d_Set key v (rdata s)\<rparr>"

definition client_CreateAddon :: "'r env \<Rightarrow> CreateAddonInput \<Rightarrow> 'r world \<Rightarrow> error option \<times> 'r world" where
  "client_CreateAddon env input s =
     (case CreateAddon env input (remote s) of
        (err, r) \<Rightarrow> (err, s\<lparr>remote := r, events := events s @ [CreateAddon_ev input err]\<rparr>))"

definition waiter_WaitActive :: "'r env \<Rightarrow> DescribeAddonInput \<Rightarrow> nat \<Rightarrow> 'r world \<Rightarrow> error option \<times> 'r world" where
  "waiter_WaitActive env params t s =
     (case AddonActiveWaiter_Wait env params t (remote s) of
        (err, r) \<Rightarrow> (err, s\<lparr>remote := r, events := events s @ [AddonActiveWait_ev params t err]\<rparr>))"

definition result_err :: "error + 'a \<Rightarrow> error option" where
  "result_err res = (case res of Inl e \<Rightarrow> Some e | Inr v \<Rightarrow> None)"

definition client_FindAddon :: "'r env \<Rightarrow> string \<Rightarrow> string \<Rightarrow> 'r world \<Rightarrow> (error + Addon) \<times> 'r world" where
  "client_FindAddon env clusterName addonName s =
     (case FindAddonByClusterNameAndAddonName env clusterName addonName (remote s) of
        (res, r) \<Rightarrow>
          (res, s\<lparr>remote := r, events := events s @ [FindAddon_ev clusterName addonName (result_err res)]\<rparr>))"

definition client_UpdateAddon :: "'r env \<Rightarrow> UpdateAddonInput \<Rightarrow> 'r world \<Rightarrow> (error + UpdateAddonOutput) \<times> 'r world" where
  "client_UpdateAddon env input s =
     (case UpdateAddon env input (remote s) of
        (res, r) \<Rightarrow> (res, s\<lparr>remote := r, events := events s @ [UpdateAddon_ev input (result_err res)]\<rparr>))"

definition client_waitAddonUpdateSuccessful ::
  "'r env \<Rightarrow> string \<Rightarrow> string \<Rightarrow> string \<Rightarrow> nat \<Rightarrow> 'r world \<Rightarrow> error option \<times> 'r world" where
  "client_waitAddonUpdateSuccessful env clusterName addonName updateID t s =
     (case waitAddonUpdateSuccessful env clusterName addonName updateID t (remote s) of
        (err, r) \<Rightarrow>
          (err, s\<lparr>remote := r,
                  events := events s @ [AddonUpdateWait_ev clusterName addonName updateID t err]\<rparr>))"

definition client_DeleteAddon :: "'r env \<Rightarrow> DeleteAddonInput \<Rightarrow> 'r world \<Rightarrow> error option \<times> 'r world" where
  "client_DeleteAddon env input s =
     (case DeleteAddon env input (remote s) of
        (err, r) \<Rightarrow> (err, s\<lparr>remote := r, events := events s @ [DeleteAddon_ev input err]\<rparr>))"

definition waiter_WaitDeleted :: "'r env \<Rightarrow> DescribeAddonInput \<Rightarrow> nat \<Rightarrow> 'r world \<Rightarrow> error option \<times> 'r world" where
  "waiter_WaitDeleted env params t s =
     (case AddonDeletedWaiter_Wait env params t (remote s) of
        (err, r) \<Rightarrow> (err, s\<lparr>remote := r, events := events s @ [AddonDeletedWait_ev params t err]\<rparr>))"

subsection \<open>Retrying\<close>

text \<open>
  Modelled from the spec: \<^verbatim>\<open>tfresource.RetryWhen\<close> (\<^verbatim>\<open>internal/tfresource\<close>) is not
  among the sources. Section 4.4 of the specification: a call that fails with an error
  of the retried class is tried again after a backoff, bounded by an overall
  propagation-timeout budget; any other error is fatal at once. The budget is counted
  here in backoff periods: \<open>RetryWhen n\<close> can retry \<open>n\<close> times, and once the budget is
  used up the error of the last attempt is returned. The second argument is the call,
  the third the predicate that the caller gives (whether to retry, and the error to
  report).
\<close>

fun RetryWhen ::
  "nat \<Rightarrow> ('s \<Rightarrow> error option \<times> 's) \<Rightarrow> (error option \<Rightarrow> bool \<times> error option) \<Rightarrow> 's
    \<Rightarrow> error option \<times> 's" where
  "RetryWhen 0 f retryable s =
     (case f s of (err, s') \<Rightarrow> (snd (retryable err), s'))"
| "RetryWhen (Suc budget) f retryable s =
     (case f s of (err, s') \<Rightarrow>
        (case retryable err of
           (again, err') \<Rightarrow> if again then RetryWhen budget f retryable s' else (err', s')))"

subsection \<open>Read\<close>

text \<open>
  \<^verbatim>\<open>resourceAddonRead\<close>. \<open>return nil\<close> is the empty list of diagnostics. The
  \<^verbatim>\<open>log.Printf\<close> line has no effect on the result and is left out.
\<close>

definition resourceAddonRead :: "'r env \<Rightarrow> 'r world \<Rightarrow> Diagnostics \<times> 'r world" where
  "resourceAddonRead env s0 =
     (let diags = [] in
      case AddonParseResourceID env (d_Id (rdata s0)) of
        Inl err \<Rightarrow> (sdkdiag_AppendFromErr diags err, s0)
      | Inr (clusterName, addonName) \<Rightarrow>
          (case client_FindAddon env clusterName addonName s0 of
             (res, s1) \<Rightarrow>
               (let err = result_err res;
                    rest =
                      (case res of
                         Inl e \<Rightarrow>
                           (sdkdiag_AppendErrorf diags
                              (''reading EKS Add-On ('' @ d_Id (rdata s1) @ ''): '' @ err_Error e),
                            s1)
                       | Inr addon \<Rightarrow>
                           (let s2 = Set_attr ''addon_name'' (aws_ToString (Addon_AddonName addon)) s1;
                                s3 = Set_attr ''addon_version'' (aws_ToString (Addon_AddonVersion addon)) s2;
                                s4 = Set_attr ''arn'' (aws_ToString (Addon_AddonArn addon)) s3;
                                s5 = Set_attr ''cluster_name'' (aws_ToString (Addon_ClusterName addon)) s4;
                                s6 = Set_attr ''configuration_values''
                                       (aws_ToString (Addon_ConfigurationValues addon)) s5;
                                s7 = Set_attr ''created_at'' (format_RFC3339 (Addon_CreatedAt addon)) s6;
                                s8 = Set_attr ''modified_at'' (format_RFC3339 (Addon_ModifiedAt addon)) s7;
                                s9 = Set_attr ''service_account_role_arn''
                                       (aws_ToString (Addon_ServiceAccountRoleArn addon)) s8
                            in (diags, setTagsOut (Addon_Tags addon) s9)))
                in if \<not> d_IsNewResource (rdata s1) \<and> errs_IsA ResourceNotFoundException err
                   then (if \<not> d_IsNewResource (rdata s1) then ([], SetId [] s1) else rest)
                   else rest)))"

subsection \<open>Create\<close>

text \<open>
  The predicate that \<^verbatim>\<open>resourceAddonCreate\<close> gives to \<^verbatim>\<open>RetryWhen\<close> (the second
  closure of the call). \<^verbatim>\<open>err.Error()\<close> is reached only behind \<^verbatim>\<open>errs.IsA\<close>, which
  is false of \<^verbatim>\<open>nil\<close>.
\<close>

definition Error_of :: "error option \<Rightarrow> string" where
  "Error_of err = (case err of None \<Rightarrow> [] | Some e \<Rightarrow> err_Error e)"

definition create_retryable :: "error option \<Rightarrow> bool \<times> error option" where
  "create_retryable err =
     (if errs_IsA InvalidParameterException err \<and>
         (strings_Contains (Error_of err) ''CREATE_FAILED'' \<or>
          strings_Contains (Error_of err) ''does not exist'')
      then (True, err)
      else (False, err))"

definition resourceAddonCreate :: "'r env \<Rightarrow> 'r world \<Rightarrow> Diagnostics \<times> 'r world" where
  "resourceAddonCreate env s0 =
     (let diags = [];
          addonName = d_Get (rdata s0) ''addon_name'';
          clusterName = d_Get (rdata s0) ''cluster_name'';
          id = AddonCreateResourceID env clusterName addonName
      in case sdkid_UniqueId env s0 of
        (token, s1) \<Rightarrow>
          (let input =
                 \<lparr>Create_AddonName = Some addonName,
                  Create_ClientRequestToken = Some token,
                  Create_ClusterName = Some clusterName,
                  Create_Tags = getTagsIn s1,
                  Create_AddonVersion = None,
                  Create_ConfigurationValues = None,
                  Create_ResolveConflicts = [],
                  Create_ServiceAccountRoleArn = None\<rparr>;
               input =
                 (case d_GetOk (rdata s1) ''addon_version'' of
                    (v, ok) \<Rightarrow> if ok then input\<lparr>Create_AddonVersion := Some v\<rparr> else input);
               input =
                 (case d_GetOk (rdata s1) ''configuration_values'' of
                    (v, ok) \<Rightarrow> if ok then input\<lparr>Create_ConfigurationValues := Some v\<rparr> else input);
               input =
                 (case d_GetOk (rdata s1) ''resolve_conflicts'' of
                    (v, ok) \<Rightarrow>
                      if ok then input\<lparr>Create_ResolveConflicts := v\<rparr>
                      else (case d_GetOk (rdata s1) ''resolve_conflicts_on_create'' of
                              (v, ok) \<Rightarrow> if ok then input\<lparr>Create_ResolveConflicts := v\<rparr> else input));
               input =
                 (case d_GetOk (rdata s1) ''service_account_role_arn'' of
                    (v, ok) \<Rightarrow> if ok then input\<lparr>Create_ServiceAccountRoleArn := Some v\<rparr> else input)
           in case RetryWhen (propagationTimeout env) (client_CreateAddon env input) create_retryable s1 of
             (Some err, s2) \<Rightarrow>
               (sdkdiag_AppendErrorf diags (''creating EKS Add-On ('' @ id @ ''): '' @ err_Error err), s2)
           | (None, s2) \<Rightarrow>
               (let s3 = SetId id s2;
                    waiterParams =
                      \<lparr>Describe_AddonName = Some addonName, Describe_ClusterName = Some clusterName\<rparr>
                in case waiter_WaitActive env waiterParams
                          (d_Timeout (rdata s3) schema_TimeoutCreate) s3 of
                  (Some err, s4) \<Rightarrow>
                    (let diags =
                           sdkdiag_AppendErrorf diags
                             (''waiting for EKS Add-On ('' @ d_Id (rdata s4) @ '') create: '' @ err_Error err)
                     in (sdkdiag_AppendWarningf diags
                           ''Running terraform apply again will remove the kubernetes add-on and attempt to create it again effectively purging previous add-on configuration'',
                         s4))
                | (None, s4) \<Rightarrow>
                    (case resourceAddonRead env s4 of (rdiags, s5) \<Rightarrow> (diags @ rdiags, s5)))))"

subsection \<open>Update\<close>

text \<open>
  \<^verbatim>\<open>resourceAddonUpdate\<close>. \<^verbatim>\<open>output.Update.Id\<close> dereferences \<^verbatim>\<open>output.Update\<close>: on a
  \<^verbatim>\<open>nil\<close> pointer the Go code panics, which is the result \<open>Panic\<close>.
\<close>

datatype go_result = Return Diagnostics | Panic

definition resourceAddonUpdate :: "'r env \<Rightarrow> 'r world \<Rightarrow> go_result \<times> 'r world" where
  "resourceAddonUpdate env s0 =
     (let diags = [];
          refresh = (\<lambda>s. case resourceAddonRead env s of (rdiags, s') \<Rightarrow> (Return (diags @ rdiags), s'))
      in case AddonParseResourceID env (d_Id (rdata s0)) of
        Inl err \<Rightarrow> (Return (sdkdiag_AppendFromErr diags err), s0)
      | Inr (clusterName, addonName) \<Rightarrow>
          if d_HasChanges (rdata s0) [''addon_version'', ''service_account_role_arn'', ''configuration_values'']
          then
            (case sdkid_UniqueId env s0 of
               (token, s1) \<Rightarrow>
                 (let input =
                        \<lparr>Update_AddonName = Some addonName,
                         Update_ClientRequestToken = Some token,
                         Update_ClusterName = Some clusterName,
                         Update_AddonVersion = None,
                         Update_ConfigurationValues = None,
                         Update_ResolveConflicts = [],
                         Update_ServiceAccountRoleArn = None\<rparr>;
                      input =
                        (if d_HasChange (rdata s1) ''addon_version''
                         then input\<lparr>Update_AddonVersion := Some (d_Get (rdata s1) ''addon_version'')\<rparr>
                         else input);
                      input =
                        (if d_HasChange (rdata s1) ''configuration_values''
                         then input\<lparr>Update_ConfigurationValues :=
                                       Some (d_Get (rdata s1) ''configuration_values'')\<rparr>
                         else input);
                      (conflictResolutionAttr, conflictResolution, input) =
                        (case d_GetOk (rdata s1) ''resolve_conflicts'' of
                           (v, ok) \<Rightarrow>
                             if ok then (''resolve_conflicts'', v, input\<lparr>Update_ResolveConflicts := v\<rparr>)
                             else (case d_GetOk (rdata s1) ''resolve_conflicts_on_update'' of
                                     (v, ok) \<Rightarrow>
                                       if ok
                                       then (''resolve_conflicts_on_update'', v,
                                             input\<lparr>Update_ResolveConflicts := v\<rparr>)
                                       else ([], [], input)));
                      input =
                        (if d_HasChange (rdata s1) ''service_account_role_arn'' \<or>
                            d_Get (rdata s1) ''service_account_role_arn'' \<noteq> []
                         then input\<lparr>Update_ServiceAccountRoleArn :=
                                       Some (d_Get (rdata s1) ''service_account_role_arn'')\<rparr>
                         else input)
                  in case client_UpdateAddon env input s1 of
                    (Inl err, s2) \<Rightarrow>
                      (Return (sdkdiag_AppendErrorf diags
                         (''updating EKS Add-On ('' @ d_Id (rdata s2) @ ''): '' @ err_Error err)), s2)
                  | (Inr output, s2) \<Rightarrow>
                      (case Output_Update output of
                         None \<Rightarrow> (Panic, s2)
                       | Some upd \<Rightarrow>
                           (let updateID = aws_ToString (Update_Id upd)
                            in case client_waitAddonUpdateSuccessful env clusterName addonName updateID
                                      (d_Timeout (rdata s2) schema_TimeoutUpdate) s2 of
                              (Some err, s3) \<Rightarrow>
                                if conflictResolution \<noteq> types_ResolveConflictsOverwrite
                                then
                                  (Return (sdkdiag_AppendErrorf diags
                                     (''waiting for EKS Add-On ('' @ d_Id (rdata s3) @ '') update ('' @
                                      updateID @ ''): '' @ err_Error err @
                                      ''. Consider setting attribute '' @ fmt_q conflictResolutionAttr @
                                      '' to '' @ fmt_q types_ResolveConflictsOverwrite)), s3)
                                else
                                  (Return (sdkdiag_AppendErrorf diags
                                     (''waiting for EKS Add-On ('' @ d_Id (rdata s3) @ '') update ('' @
                                      updateID @ ''): '' @ err_Error err)), s3)
                            | (None, s3) \<Rightarrow> refresh s3))))
          else refresh s0)"

subsection \<open>Delete\<close>

text \<open>
  \<^verbatim>\<open>resourceAddonDelete\<close>. After a failed wait the code calls
  \<^verbatim>\<open>sdkdiag.AppendErrorf(diags, ...)\<close> as a statement: the slice it returns is not
  assigned, and \<^verbatim>\<open>diags\<close> is returned as it was.
\<close>

definition resourceAddonDelete :: "'r env \<Rightarrow> 'r world \<Rightarrow> Diagnostics \<times> 'r world" where
  "resourceAddonDelete env s0 =
     (let diags = [] in
      case AddonParseResourceID env (d_Id (rdata s0)) of
        Inl err \<Rightarrow> (sdkdiag_AppendFromErr diags err, s0)
      | Inr (clusterName, addonName) \<Rightarrow>
          (let input =
                 \<lparr>Delete_AddonName = Some addonName,
                  Delete_ClusterName = Some clusterName,
                  Delete_Preserve = False\<rparr>;
               input =
                 (case d_GetOk_bool (rdata s0) ''preserve'' of
                    (v, ok) \<Rightarrow> if ok then input\<lparr>Delete_Preserve := v\<rparr> else input)
           in case client_DeleteAddon env input s0 of
             (Some err, s1) \<Rightarrow>
               (sdkdiag_AppendErrorf diags
                  (''deleting EKS Add-On ('' @ d_Id (rdata s1) @ ''): '' @ err_Error err), s1)
           | (None, s1) \<Rightarrow>
               (let waiterParams =
                      \<lparr>Describe_AddonName = Some addonName, Describe_ClusterName = Some clusterName\<rparr>
                in case waiter_WaitDeleted env waiterParams
                          (d_Timeout (rdata s1) schema_TimeoutDelete) s1 of
                  (Some err, s2) \<Rightarrow>
                    (let discarded =
                           sdkdiag_AppendErrorf diags
                             (''waiting for EKS Add-On ('' @ d_Id (rdata s2) @ '') delete: '' @ err_Error err)
                     in (diags, s2))
                | (None, s2) \<Rightarrow> (diags, s2))))"

subsection \<open>Reading the log\<close>

text \<open>
  The events an operation added to the log, and among them the attempts of the remote
  create call and of the remote update call, each with the request it sent and the
  error it got.
\<close>

definition new_events :: "'r world \<Rightarrow> 'r world \<Rightarrow> event list" where
  "new_events s s' = drop (length (events s)) (events s')"

fun create_attempts :: "event list \<Rightarrow> (CreateAddonInput \<times> error option) list" where
  "create_attempts [] = []"
| "create_attempts (CreateAddon_ev input err # evs) = (input, err) # create_attempts evs"
| "create_attempts (ev # evs) = create_attempts evs"

fun update_attempts :: "event list \<Rightarrow> (UpdateAddonInput \<times> error option) list" where
  "update_attempts [] = []"
| "update_attempts (UpdateAddon_ev input err # evs) = (input, err) # update_attempts evs"
| "update_attempts (ev # evs) = update_attempts evs"

text \<open>
  The errors after which the create call is tried again: an invalid-parameter error
  whose text says that a prior instance is in a failed state or no longer exists.
\<close>

abbreviation retried_class :: "error option \<Rightarrow> bool" where
  "retried_class r \<equiv>
     (\<exists>e. r = Some e \<and> err_type e = InvalidParameterException \<and>
          (strings_Contains (err_Error e) ''CREATE_FAILED'' \<or>
           strings_Contains (err_Error e) ''does not exist''))"

subsection \<open>A scripted remote service, for concrete runs\<close>

text \<open>
  Modelled from the spec: the identifier codec (\<^verbatim>\<open>AddonCreateResourceID\<close>,
  \<^verbatim>\<open>AddonParseResourceID\<close>) is declared in a file of the package that is not among
  the sources. Section 4.1 of the specification: the identifier is the parent
  identifier, a reserved separator and the component name; decoding fails when the
  separator is absent or a part is empty. Section 8 gives \<^verbatim>\<open>cluster-a:vpc-cni\<close>. The
  theorems below hold for every codec; this one is used in the concrete runs only.
\<close>

definition spec_AddonCreateResourceID :: "string \<Rightarrow> string \<Rightarrow> string" where
  "spec_AddonCreateResourceID clusterName addonName = clusterName @ '':'' @ addonName"

definition spec_AddonParseResourceID :: "string \<Rightarrow> error + string \<times> string" where
  "spec_AddonParseResourceID compositeID =
     (let parent = takeWhile (\<lambda>c. c \<noteq> CHR '':'') compositeID;
          name = drop (Suc (length parent)) compositeID
      in if CHR '':'' \<in> set compositeID \<and> parent \<noteq> [] \<and> name \<noteq> [] then Inr (parent, name)
         else Inl (GoError OtherError (''unexpected format for ID ('' @ compositeID @ '')'')))"

text \<open>
  The remote service of the concrete runs answers from a script: its state is the
  number of calls it has answered, and the \<open>n\<close>-th call gets the \<open>n\<close>-th entry of
  the script (success once the script is used up). A successful update has the
  identifier \<^verbatim>\<open>update-1\<close>; the \<open>n\<close>-th unique identifier is \<^verbatim>\<open>terraform-\<close>
  followed by \<open>n + 1\<close> digits \<^verbatim>\<open>1\<close>, so that no two are equal; the second argument
  is the retry budget.
\<close>

definition outcome :: "error option list \<Rightarrow> nat \<Rightarrow> error option" where
  "outcome script n = (if n < length script then script ! n else None)"

definition sample_addon :: "string \<Rightarrow> string \<Rightarrow> Addon" where
  "sample_addon clusterName addonName =
     \<lparr>Addon_AddonName = Some addonName,
      Addon_AddonVersion = Some ''v1.2.0'',
      Addon_AddonArn = Some ''arn:aws:eks:addon'',
      Addon_ClusterName = Some clusterName,
      Addon_ConfigurationValues = None,
      Addon_CreatedAt = Some ''2024-01-01T00:00:00Z'',
      Addon_ModifiedAt = Some ''2024-01-01T00:00:00Z'',
      Addon_ServiceAccountRoleArn = None,
      Addon_Tags = Map.empty\<rparr>"

definition scripted_env :: "error option list \<Rightarrow> nat \<Rightarrow> nat env" where
  "scripted_env script budget =
     \<lparr>CreateAddon = (\<lambda>input n. (outcome script n, Suc n)),
      AddonActiveWaiter_Wait = (\<lambda>params t n. (outcome script n, Suc n)),
      FindAddonByClusterNameAndAddonName =
        (\<lambda>clusterName addonName n.
           (case outcome script n of
              Some e \<Rightarrow> Inl e
            | None \<Rightarrow> Inr (sample_addon clusterName addonName), Suc n)),
      UpdateAddon =
        (\<lambda>input n.
           (case outcome script n of
              Some e \<Rightarrow> Inl e
            | None \<Rightarrow> Inr \<lparr>Output_Update = Some \<lparr>Update_Id = Some ''update-1''\<rparr>\<rparr>, Suc n)),
      waitAddonUpdateSuccessful = (\<lambda>clusterName addonName updateID t n. (outcome script n, Suc n)),
      DeleteAddon = (\<lambda>input n. (outcome script n, Suc n)),
      AddonDeletedWaiter_Wait = (\<lambda>params t n. (outcome script n, Suc n)),
      AddonCreateResourceID = spec_AddonCreateResourceID,
      AddonParseResourceID = spec_AddonParseResourceID,
      UniqueId = (\<lambda>n. ''terraform-'' @ replicate (Suc n) (CHR ''1'')),
      propagationTimeout = budget\<rparr>"

text \<open>
  The resource data of the runs. \<open>planned_addon\<close> is the add-on of the scenarios in
  section 8 of the specification before its creation: \<^verbatim>\<open>vpc-cni\<close> on
  \<^verbatim>\<open>cluster-a\<close>, version \<^verbatim>\<open>v1.2.0\<close>, no conflict policy. Every timeout is 1200
  seconds. A run starts in \<open>world_of d\<close>, with an empty log.
\<close>

definition planned_addon :: ResourceData where
  "planned_addon =
     \<lparr>rd_id = [],
      rd_isNew = True,
      rd_old = (\<lambda>key. []),
      rd_new = (\<lambda>key. [])(''addon_name'' := ''vpc-cni'', ''cluster_name'' := ''cluster-a'',
                 ''addon_version'' := ''v1.2.0''),
      rd_bool = (\<lambda>key. False),
      rd_timeout = (\<lambda>key. 1200)\<rparr>"

definition world_of :: "ResourceData \<Rightarrow> nat world" where
  "world_of d =
     \<lparr>rdata = d, remote = 0, uid_count = 0, tags_in = Map.empty, tags_out = Map.empty, events = []\<rparr>"

text \<open>The errors the script returns.\<close>

definition create_failed :: error where
  "create_failed = GoError InvalidParameterException
     ''InvalidParameterException: Addon vpc-cni is in CREATE_FAILED state''"

definition access_denied :: error where
  "access_denied = GoError OtherError ''AccessDeniedException: not authorized''"

definition conflict :: error where
  "conflict = GoError OtherError ''ConfigurationConflict: Apply failed with 1 conflict''"

definition not_found :: error where
  "not_found = GoError ResourceNotFoundException
     ''ResourceNotFoundException: No addon: vpc-cni found in cluster: cluster-a''"

definition wait_timeout :: error where
  "wait_timeout = GoError OtherError ''exceeded max wait time for AddonDeleted waiter''"

text \<open>
  The same add-on once it exists, without changes; with a service account role added;
  with a new version; and with a new version beside a role that stays. \<open>with_attr\<close>
  sets an attribute to the same value in the prior state and now.
\<close>

definition established_addon :: ResourceData where
  "established_addon =
     planned_addon\<lparr>rd_id := ''cluster-a:vpc-cni'', rd_isNew := False, rd_old := rd_new planned_addon\<rparr>"

definition role_added :: ResourceData where
  "role_added =
     established_addon\<lparr>rd_new := (rd_new established_addon)
        (''service_account_role_arn'' := ''arn:aws:iam::123456789012:role/role-x'')\<rparr>"

definition version_bumped :: ResourceData where
  "version_bumped =
     established_addon\<lparr>rd_new := (rd_new established_addon)(''addon_version'' := ''v1.3.0'')\<rparr>"

definition version_bumped_with_role :: ResourceData where
  "version_bumped_with_role =
     version_bumped
       \<lparr>rd_old := (rd_old version_bumped)
          (''service_account_role_arn'' := ''arn:aws:iam::123456789012:role/role-x''),
        rd_new := (rd_new version_bumped)
          (''service_account_role_arn'' := ''arn:aws:iam::123456789012:role/role-x'')\<rparr>"

definition with_attr :: "string \<Rightarrow> string \<Rightarrow> ResourceData \<Rightarrow> ResourceData" where
  "with_attr key v d = d\<lparr>rd_old := (rd_old d)(key := v), rd_new := (rd_new d)(key := v)\<rparr>"

text \<open>
  The requests that the concrete runs below send.
\<close>

definition planned_request :: CreateAddonInput where
  "planned_request =
     \<lparr>Create_AddonName = Some ''vpc-cni'',
      Create_ClientRequestToken = Some ''terraform-1'',
      Create_ClusterName = Some ''cluster-a'',
      Create_Tags = Map.empty,
      Create_AddonVersion = Some ''v1.2.0'',
      Create_ConfigurationValues = None,
      Create_ResolveConflicts = [],
      Create_ServiceAccountRoleArn = None\<rparr>"

definition describe_request :: DescribeAddonInput where
  "describe_request = \<lparr>Describe_AddonName = Some ''vpc-cni'', Describe_ClusterName = Some ''cluster-a''\<rparr>"

definition update_request :: UpdateAddonInput where
  "update_request =
     \<lparr>Update_AddonName = Some ''vpc-cni'',
      Update_ClientRequestToken = Some ''terraform-1'',
      Update_ClusterName = Some ''cluster-a'',
      Update_AddonVersion = None,
      Update_ConfigurationValues = None,
      Update_ResolveConflicts = [],
      Update_ServiceAccountRoleArn = None\<rparr>"

definition delete_request :: DeleteAddonInput where
  "delete_request =
     \<lparr>Delete_AddonName = Some ''vpc-cni'', Delete_ClusterName = Some ''cluster-a'',
      Delete_Preserve = False\<rparr>"

section \<open>Properties\<close>

subsection \<open>Substrings\<close>

lemma strings_HasPrefix_iff: "strings_HasPrefix s p \<longleftrightarrow> (\<exists>q. s = p @ q)"
  by (induction s p rule: strings_HasPrefix.induct) auto

lemma strings_Contains_iff: "strings_Contains s sub \<longleftrightarrow> (\<exists>p q. s = p @ sub @ q)"
proof (induction s)
  case Nil
  then show ?case by auto
next
  case (Cons c cs)
  show ?case
  proof
    assume "strings_Contains (c # cs) sub"
    then consider "strings_HasPrefix (c # cs) sub" | "strings_Contains cs sub" by auto
    then show "\<exists>p q. c # cs = p @ sub @ q"
    proof cases
      case 1
      then obtain q where "c # cs = sub @ q" by (auto simp: strings_HasPrefix_iff)
      then have "c # cs = [] @ sub @ q" by simp
      then show ?thesis by blast
    next
      case 2
      then obtain p q where "cs = p @ sub @ q" using Cons.IH by auto
      then have "c # cs = (c # p) @ sub @ q" by simp
      then show ?thesis by blast
    qed
  next
    assume "\<exists>p q. c # cs = p @ sub @ q"
    then obtain p q where pq: "c # cs = p @ sub @ q" by blast
    show "strings_Contains (c # cs) sub"
    proof (cases p)
      case Nil
      then have "strings_HasPrefix (c # cs) sub" using pq by (auto simp: strings_HasPrefix_iff)
      then show ?thesis by simp
    next
      case (Cons x xs)
      then have "cs = xs @ sub @ q" using pq by simp
      then have "strings_Contains cs sub" using Cons.IH by blast
      then show ?thesis by simp
    qed
  qed
qed

subsection \<open>The retry loop of create\<close>

lemma create_retryable_again:
  "fst (create_retryable r) = retried_class r"
  by (cases r) (auto simp: create_retryable_def errs_IsA_def Error_of_def)

lemma create_retryable_err: "snd (create_retryable r) = r"
  by (simp add: create_retryable_def)

lemma RetryWhen_CreateAddon:
  "RetryWhen n (client_CreateAddon env input) create_retryable s = (err, s') \<Longrightarrow>
   \<exists>rs. rs \<noteq> [] \<and> events s' = events s @ map (CreateAddon_ev input) rs \<and>
        rdata s' = rdata s \<and> uid_count s' = uid_count s \<and>
        tags_in s' = tags_in s \<and> tags_out s' = tags_out s \<and>
        last rs = err \<and>
        (\<forall>k<length rs. (Suc k < length rs) = (retried_class (rs ! k) \<and> k < n))"
proof (induction n arbitrary: s)
  case 0
  obtain r q where f: "CreateAddon env input (remote s) = (r, q)" by (cases "CreateAddon env input (remote s)")
  with 0 have "err = r" "s' = s\<lparr>remote := q, events := events s @ [CreateAddon_ev input r]\<rparr>"
    by (auto simp: client_CreateAddon_def create_retryable_err)
  then show ?case by (intro exI[of _ "[r]"]) simp
next
  case (Suc n)
  obtain r q where f: "CreateAddon env input (remote s) = (r, q)" by (cases "CreateAddon env input (remote s)")
  define s1 where "s1 = s\<lparr>remote := q, events := events s @ [CreateAddon_ev input r]\<rparr>"
  have c: "client_CreateAddon env input s = (r, s1)" by (simp add: client_CreateAddon_def f s1_def)
  show ?case
  proof (cases "retried_class r")
    case True
    then have "fst (create_retryable r)" by (simp add: create_retryable_again)
    with Suc.prems c have "RetryWhen n (client_CreateAddon env input) create_retryable s1 = (err, s')"
      by (simp add: split_beta)
    from Suc.IH[OF this] obtain rs where rs: "rs \<noteq> []" "events s' = events s1 @ map (CreateAddon_ev input) rs"
        "rdata s' = rdata s1" "uid_count s' = uid_count s1" "tags_in s' = tags_in s1" "tags_out s' = tags_out s1"
        "last rs = err" "\<forall>k<length rs. (Suc k < length rs) = (retried_class (rs ! k) \<and> k < n)" by blast
    have "\<forall>k<length (r # rs). (Suc k < length (r # rs)) = (retried_class ((r # rs) ! k) \<and> k < Suc n)"
    proof (intro allI impI)
      fix k assume "k < length (r # rs)"
      then show "(Suc k < length (r # rs)) = (retried_class ((r # rs) ! k) \<and> k < Suc n)"
        using rs(1,8) True by (cases k) auto
    qed
    with rs show ?thesis
      by (intro exI[of _ "r # rs"]) (simp add: s1_def)
  next
    case False
    then have "\<not> fst (create_retryable r)" by (simp add: create_retryable_again)
    with Suc.prems c have "err = r" "s' = s1"
      by (auto simp: split_beta create_retryable_err)
    then show ?thesis using False by (intro exI[of _ "[r]"]) (auto simp: s1_def)
  qed
qed

subsection \<open>The steps of read and create\<close>

lemma resourceAddonRead_events:
  assumes "resourceAddonRead env s = (dg, s')"
  shows "uid_count s' = uid_count s \<and>
         (\<exists>c a r. events s' = events s \<or> events s' = events s @ [FindAddon_ev c a r] \<or>
                  events s' = events s @ [FindAddon_ev c a r, SetId_ev []])"
proof (cases "AddonParseResourceID env (d_Id (rdata s))")
  case (Inl e)
  with assms show ?thesis by (auto simp: resourceAddonRead_def)
next
  case (Inr p)
  obtain c a where p: "p = (c, a)" by (cases p)
  obtain res q where f: "FindAddonByClusterNameAndAddonName env c a (remote s) = (res, q)"
    by (cases "FindAddonByClusterNameAndAddonName env c a (remote s)")
  from assms Inr p f show ?thesis
    by (auto simp: resourceAddonRead_def client_FindAddon_def Let_def SetId_def Set_attr_def
        setTagsOut_def split: sum.splits if_splits)
qed

lemma resourceAddonCreate_run:
  assumes run: "resourceAddonCreate env s = (diags, s')"
  obtains input rs s2 where
    "Create_ClientRequestToken input = Some (UniqueId env (uid_count s))"
    "Create_ResolveConflicts input =
       (if d_Get (rdata s) ''resolve_conflicts'' \<noteq> [] then d_Get (rdata s) ''resolve_conflicts''
        else if d_Get (rdata s) ''resolve_conflicts_on_create'' \<noteq> []
             then d_Get (rdata s) ''resolve_conflicts_on_create'' else [])"
    "rs \<noteq> []"
    "\<forall>k<length rs. (Suc k < length rs) = (retried_class (rs ! k) \<and> k < propagationTimeout env)"
    "events s2 = events s @ map (CreateAddon_ev input) rs"
    "rdata s2 = rdata s" "uid_count s2 = Suc (uid_count s)"
    "case last rs of
       Some e \<Rightarrow>
         diags = [\<lparr>Severity = diag_Error,
                   Summary = ''creating EKS Add-On ('' @
                     AddonCreateResourceID env (d_Get (rdata s) ''cluster_name'') (d_Get (rdata s) ''addon_name'') @
                     ''): '' @ err_Error e\<rparr>] \<and> s' = s2
     | None \<Rightarrow>
         (case waiter_WaitActive env
                 \<lparr>Describe_AddonName = Some (d_Get (rdata s) ''addon_name''),
                  Describe_ClusterName = Some (d_Get (rdata s) ''cluster_name'')\<rparr>
                 (d_Timeout (rdata s) schema_TimeoutCreate)
                 (SetId (AddonCreateResourceID env (d_Get (rdata s) ''cluster_name'') (d_Get (rdata s) ''addon_name'')) s2) of
            (Some e, s4) \<Rightarrow>
              diags = [\<lparr>Severity = diag_Error,
                        Summary = ''waiting for EKS Add-On ('' @
                          AddonCreateResourceID env (d_Get (rdata s) ''cluster_name'') (d_Get (rdata s) ''addon_name'') @
                          '') create: '' @ err_Error e\<rparr>,
                       \<lparr>Severity = diag_Warning,
                        Summary = ''Running terraform apply again will remove the kubernetes add-on and attempt to create it again effectively purging previous add-on configuration''\<rparr>]
              \<and> s' = s4
          | (None, s4) \<Rightarrow> resourceAddonRead env s4 = (diags, s'))"
proof -
  define s1 where "s1 = s\<lparr>uid_count := Suc (uid_count s)\<rparr>"
  define input where "input =
    (let input =
       \<lparr>Create_AddonName = Some (d_Get (rdata s) ''addon_name''),
        Create_ClientRequestToken = Some (UniqueId env (uid_count s)),
        Create_ClusterName = Some (d_Get (rdata s) ''cluster_name''),
        Create_Tags = getTagsIn s1,
        Create_AddonVersion = None,
        Create_ConfigurationValues = None,
        Create_ResolveConflicts = [],
        Create_ServiceAccountRoleArn = None\<rparr>;
     input =
       (case d_GetOk (rdata s1) ''addon_version'' of
          (v, ok) \<Rightarrow> if ok then input\<lparr>Create_AddonVersion := Some v\<rparr> else input);
     input =
       (case d_GetOk (rdata s1) ''configuration_values'' of
          (v, ok) \<Rightarrow> if ok then input\<lparr>Create_ConfigurationValues := Some v\<rparr> else input);
     input =
       (case d_GetOk (rdata s1) ''resolve_conflicts'' of
          (v, ok) \<Rightarrow>
            if ok then input\<lparr>Create_ResolveConflicts := v\<rparr>
            else (case d_GetOk (rdata s1) ''resolve_conflicts_on_create'' of
                    (v, ok) \<Rightarrow> if ok then input\<lparr>Create_ResolveConflicts := v\<rparr> else input));
     input =
       (case d_GetOk (rdata s1) ''service_account_role_arn'' of
          (v, ok) \<Rightarrow> if ok then input\<lparr>Create_ServiceAccountRoleArn := Some v\<rparr> else input)
     in input)"
  obtain err s2 where rw:
    "RetryWhen (propagationTimeout env) (client_CreateAddon env input) create_retryable s1 = (err, s2)"
    by (cases "RetryWhen (propagationTimeout env) (client_CreateAddon env input) create_retryable s1")
  from RetryWhen_CreateAddon[OF rw] obtain rs where rs:
    "rs \<noteq> []" "events s2 = events s1 @ map (CreateAddon_ev input) rs" "rdata s2 = rdata s1"
    "uid_count s2 = uid_count s1" "last rs = err"
    "\<forall>k<length rs. (Suc k < length rs) = (retried_class (rs ! k) \<and> k < propagationTimeout env)"
    by blast
  have tok: "Create_ClientRequestToken input = Some (UniqueId env (uid_count s))"
    by (simp add: input_def Let_def d_GetOk_def)
  have pol: "Create_ResolveConflicts input =
       (if d_Get (rdata s) ''resolve_conflicts'' \<noteq> [] then d_Get (rdata s) ''resolve_conflicts''
        else if d_Get (rdata s) ''resolve_conflicts_on_create'' \<noteq> []
             then d_Get (rdata s) ''resolve_conflicts_on_create'' else [])"
    by (simp add: input_def Let_def d_GetOk_def d_Get_def s1_def)
  have unfolded: "resourceAddonCreate env s =
    (case RetryWhen (propagationTimeout env) (client_CreateAddon env input) create_retryable s1 of
       (Some err, s2) \<Rightarrow>
         (sdkdiag_AppendErrorf []
            (''creating EKS Add-On ('' @
             AddonCreateResourceID env (d_Get (rdata s) ''cluster_name'') (d_Get (rdata s) ''addon_name'') @
             ''): '' @ err_Error err), s2)
     | (None, s2) \<Rightarrow>
         (case waiter_WaitActive env
                 \<lparr>Describe_AddonName = Some (d_Get (rdata s) ''addon_name''),
                  Describe_ClusterName = Some (d_Get (rdata s) ''cluster_name'')\<rparr>
                 (d_Timeout (rdata (SetId (AddonCreateResourceID env (d_Get (rdata s) ''cluster_name'') (d_Get (rdata s) ''addon_name'')) s2)) schema_TimeoutCreate)
                 (SetId (AddonCreateResourceID env (d_Get (rdata s) ''cluster_name'') (d_Get (rdata s) ''addon_name'')) s2) of
            (Some err, s4) \<Rightarrow>
              (sdkdiag_AppendWarningf
                 (sdkdiag_AppendErrorf []
                    (''waiting for EKS Add-On ('' @ d_Id (rdata s4) @ '') create: '' @ err_Error err))
                 ''Running terraform apply again will remove the kubernetes add-on and attempt to create it again effectively purging previous add-on configuration'',
               s4)
          | (None, s4) \<Rightarrow> (case resourceAddonRead env s4 of (rdiags, s5) \<Rightarrow> ([] @ rdiags, s5))))"
    unfolding resourceAddonCreate_def sdkid_UniqueId_def input_def s1_def Let_def prod.case
    by (rule refl)
  let ?id = "AddonCreateResourceID env (d_Get (rdata s) ''cluster_name'') (d_Get (rdata s) ''addon_name'')"
  have rd1: "rdata s1 = rdata s" and ev1: "events s1 = events s" and uid1: "uid_count s1 = Suc (uid_count s)"
    by (simp_all add: s1_def)
  have tmo: "d_Timeout (rdata (SetId ?id s2)) schema_TimeoutCreate = d_Timeout (rdata s) schema_TimeoutCreate"
    by (simp add: SetId_def d_SetId_def d_Timeout_def rs(3) rd1)
  have last_case: "case last rs of
       Some e \<Rightarrow>
         diags = [\<lparr>Severity = diag_Error,
                   Summary = ''creating EKS Add-On ('' @ ?id @ ''): '' @ err_Error e\<rparr>] \<and> s' = s2
     | None \<Rightarrow>
         (case waiter_WaitActive env
                 \<lparr>Describe_AddonName = Some (d_Get (rdata s) ''addon_name''),
                  Describe_ClusterName = Some (d_Get (rdata s) ''cluster_name'')\<rparr>
                 (d_Timeout (rdata s) schema_TimeoutCreate) (SetId ?id s2) of
            (Some e, s4) \<Rightarrow>
              diags = [\<lparr>Severity = diag_Error,
                        Summary = ''waiting for EKS Add-On ('' @ ?id @ '') create: '' @ err_Error e\<rparr>,
                       \<lparr>Severity = diag_Warning,
                        Summary = ''Running terraform apply again will remove the kubernetes add-on and attempt to create it again effectively purging previous add-on configuration''\<rparr>]
              \<and> s' = s4
          | (None, s4) \<Rightarrow> resourceAddonRead env s4 = (diags, s'))"
  proof (cases err)
    case (Some e)
    with run unfolded rw rs(5) show ?thesis
      by (auto simp: sdkdiag_AppendErrorf_def)
  next
    case None
    obtain werr s4 where w: "waiter_WaitActive env
                 \<lparr>Describe_AddonName = Some (d_Get (rdata s) ''addon_name''),
                  Describe_ClusterName = Some (d_Get (rdata s) ''cluster_name'')\<rparr>
                 (d_Timeout (rdata s) schema_TimeoutCreate) (SetId ?id s2) = (werr, s4)"
      by (cases "waiter_WaitActive env
                 \<lparr>Describe_AddonName = Some (d_Get (rdata s) ''addon_name''),
                  Describe_ClusterName = Some (d_Get (rdata s) ''cluster_name'')\<rparr>
                 (d_Timeout (rdata s) schema_TimeoutCreate) (SetId ?id s2)")
    then have id4: "d_Id (rdata s4) = ?id"
      by (auto simp: waiter_WaitActive_def SetId_def d_SetId_def d_Id_def split: prod.splits)
    from run unfolded rw None w tmo id4 rs(5) show ?thesis
      by (cases werr)
         (auto simp: sdkdiag_AppendErrorf_def sdkdiag_AppendWarningf_def split: prod.splits)
  qed
  show ?thesis
    by (rule that[OF tok pol rs(1) rs(6) _ _ _ last_case])
       (simp_all add: rs ev1 rd1 uid1)
qed

lemma create_attempts_append:
  "create_attempts (xs @ ys) = create_attempts xs @ create_attempts ys"
  by (induction xs rule: create_attempts.induct) auto

lemma create_attempts_map: "create_attempts (map (CreateAddon_ev input) rs) = map (Pair input) rs"
  by (induction rs) auto

lemma new_events_append: "events s' = events s @ evs \<Longrightarrow> new_events s s' = evs"
  by (simp add: new_events_def)

lemma resourceAddonCreate_trace:
  assumes run: "resourceAddonCreate env s = (diags, s')"
  obtains input rs tail where
    "Create_ClientRequestToken input = Some (UniqueId env (uid_count s))"
    "Create_ResolveConflicts input =
       (if d_Get (rdata s) ''resolve_conflicts'' \<noteq> [] then d_Get (rdata s) ''resolve_conflicts''
        else if d_Get (rdata s) ''resolve_conflicts_on_create'' \<noteq> []
             then d_Get (rdata s) ''resolve_conflicts_on_create'' else [])"
    "rs \<noteq> []"
    "\<forall>k<length rs. (Suc k < length rs) = (retried_class (rs ! k) \<and> k < propagationTimeout env)"
    "new_events s s' = map (CreateAddon_ev input) rs @ tail"
    "create_attempts tail = []"
    "uid_count s' = Suc (uid_count s)"
    "\<forall>e. last rs = Some e \<longrightarrow>
       tail = [] \<and> rdata s' = rdata s \<and>
       diags = [\<lparr>Severity = diag_Error,
                 Summary = ''creating EKS Add-On ('' @
                   AddonCreateResourceID env (d_Get (rdata s) ''cluster_name'') (d_Get (rdata s) ''addon_name'') @
                   ''): '' @ err_Error e\<rparr>]"
    "last rs = None \<longrightarrow>
       (\<exists>werr rest.
         tail = SetId_ev (AddonCreateResourceID env (d_Get (rdata s) ''cluster_name'') (d_Get (rdata s) ''addon_name''))
                # AddonActiveWait_ev
                    \<lparr>Describe_AddonName = Some (d_Get (rdata s) ''addon_name''),
                     Describe_ClusterName = Some (d_Get (rdata s) ''cluster_name'')\<rparr>
                    (d_Timeout (rdata s) schema_TimeoutCreate) werr
                # rest \<and>
         (\<forall>e. werr = Some e \<longrightarrow>
            rest = [] \<and>
            d_Id (rdata s') =
              AddonCreateResourceID env (d_Get (rdata s) ''cluster_name'') (d_Get (rdata s) ''addon_name'') \<and>
            diags = [\<lparr>Severity = diag_Error,
                      Summary = ''waiting for EKS Add-On ('' @
                        AddonCreateResourceID env (d_Get (rdata s) ''cluster_name'') (d_Get (rdata s) ''addon_name'') @
                        '') create: '' @ err_Error e\<rparr>,
                     \<lparr>Severity = diag_Warning,
                      Summary = ''Running terraform apply again will remove the kubernetes add-on and attempt to create it again effectively purging previous add-on configuration''\<rparr>]))"
proof -
  let ?id = "AddonCreateResourceID env (d_Get (rdata s) ''cluster_name'') (d_Get (rdata s) ''addon_name'')"
  let ?params = "\<lparr>Describe_AddonName = Some (d_Get (rdata s) ''addon_name''),
                  Describe_ClusterName = Some (d_Get (rdata s) ''cluster_name'')\<rparr>"
  let ?t = "d_Timeout (rdata s) schema_TimeoutCreate"
  from resourceAddonCreate_run[OF run] obtain input rs s2 where r:
    "Create_ClientRequestToken input = Some (UniqueId env (uid_count s))"
    "Create_ResolveConflicts input =
       (if d_Get (rdata s) ''resolve_conflicts'' \<noteq> [] then d_Get (rdata s) ''resolve_conflicts''
        else if d_Get (rdata s) ''resolve_conflicts_on_create'' \<noteq> []
             then d_Get (rdata s) ''resolve_conflicts_on_create'' else [])"
    "rs \<noteq> []"
    "\<forall>k<length rs. (Suc k < length rs) = (retried_class (rs ! k) \<and> k < propagationTimeout env)"
    "events s2 = events s @ map (CreateAddon_ev input) rs"
    "rdata s2 = rdata s" "uid_count s2 = Suc (uid_count s)"
    and lc: "case last rs of
       Some e \<Rightarrow>
         diags = [\<lparr>Severity = diag_Error,
                   Summary = ''creating EKS Add-On ('' @ ?id @ ''): '' @ err_Error e\<rparr>] \<and> s' = s2
     | None \<Rightarrow>
         (case waiter_WaitActive env ?params ?t (SetId ?id s2) of
            (Some e, s4) \<Rightarrow>
              diags = [\<lparr>Severity = diag_Error,
                        Summary = ''waiting for EKS Add-On ('' @ ?id @ '') create: '' @ err_Error e\<rparr>,
                       \<lparr>Severity = diag_Warning,
                        Summary = ''Running terraform apply again will remove the kubernetes add-on and attempt to create it again effectively purging previous add-on configuration''\<rparr>]
              \<and> s' = s4
          | (None, s4) \<Rightarrow> resourceAddonRead env s4 = (diags, s'))"
    by blast
  show ?thesis
  proof (cases "last rs")
    case (Some e)
    with lc have d: "diags = [\<lparr>Severity = diag_Error,
                   Summary = ''creating EKS Add-On ('' @ ?id @ ''): '' @ err_Error e\<rparr>]" and s': "s' = s2"
      by simp_all
    have ne: "new_events s s' = map (CreateAddon_ev input) rs @ []"
      using r(5) s' by (simp add: new_events_append)
    show ?thesis
      by (rule that[OF r(1) r(2) r(3) r(4) ne])
         (use Some d s' r in simp_all)
  next
    case None
    obtain werr s4 where w: "waiter_WaitActive env ?params ?t (SetId ?id s2) = (werr, s4)"
      by (cases "waiter_WaitActive env ?params ?t (SetId ?id s2)")
    then have s4: "events s4 = events s2 @ [SetId_ev ?id, AddonActiveWait_ev ?params ?t werr]"
        "uid_count s4 = uid_count s2" "d_Id (rdata s4) = ?id"
      by (auto simp: waiter_WaitActive_def SetId_def d_SetId_def d_Id_def split: prod.splits)
    show ?thesis
    proof (cases werr)
      case (Some e)
      with lc None w have d: "diags = [\<lparr>Severity = diag_Error,
                        Summary = ''waiting for EKS Add-On ('' @ ?id @ '') create: '' @ err_Error e\<rparr>,
                       \<lparr>Severity = diag_Warning,
                        Summary = ''Running terraform apply again will remove the kubernetes add-on and attempt to create it again effectively purging previous add-on configuration''\<rparr>]"
        and s': "s' = s4" by simp_all
      have ne: "new_events s s' =
          map (CreateAddon_ev input) rs @ [SetId_ev ?id, AddonActiveWait_ev ?params ?t werr]"
        using r(5) s4(1) s' by (simp add: new_events_append)
      show ?thesis
        by (rule that[OF r(1) r(2) r(3) r(4) ne])
           (use None Some d s' s4 r in simp_all)
    next
      case wNone: None
      with lc None w have rd: "resourceAddonRead env s4 = (diags, s')" by simp
      from resourceAddonRead_events[OF rd] obtain c a q where
        u: "uid_count s' = uid_count s4" and
        ev: "events s' = events s4 \<or> events s' = events s4 @ [FindAddon_ev c a q] \<or>
             events s' = events s4 @ [FindAddon_ev c a q, SetId_ev []]"
        by blast
      then obtain rest where rest: "events s' = events s4 @ rest" "create_attempts rest = []"
        by (elim disjE) auto
      have ne: "new_events s s' =
          map (CreateAddon_ev input) rs @ (SetId_ev ?id # AddonActiveWait_ev ?params ?t werr # rest)"
        using r(5) s4(1) rest(1) by (simp add: new_events_append)
      show ?thesis
        by (rule that[OF r(1) r(2) r(3) r(4) ne])
           (use None wNone rest u s4 r in simp_all)
    qed
  qed
qed

subsection \<open>The steps of update\<close>

lemma resourceAddonRead_new_events:
  assumes "resourceAddonRead env s = (dg, s')"
  shows "\<exists>c a r. new_events s s' = [] \<or> new_events s s' = [FindAddon_ev c a r] \<or>
                new_events s s' = [FindAddon_ev c a r, SetId_ev []]"
  using resourceAddonRead_events[OF assms] by (auto simp: new_events_def)

lemma resourceAddonUpdate_unchanged:
  assumes "\<not> d_HasChanges (rdata s) [''addon_version'', ''service_account_role_arn'', ''configuration_values'']"
  shows "resourceAddonUpdate env s = (case resourceAddonRead env s of (rdiags, s') \<Rightarrow> (Return rdiags, s'))"
proof (cases "AddonParseResourceID env (d_Id (rdata s))")
  case (Inl e)
  then show ?thesis by (simp add: resourceAddonUpdate_def resourceAddonRead_def)
next
  case (Inr p)
  then show ?thesis using assms by (cases p) (simp add: resourceAddonUpdate_def)
qed

lemma resourceAddonUpdate_trace:
  assumes run: "resourceAddonUpdate env s = (res, s')"
  obtains (refresh) "update_attempts (new_events s s') = []"
  | (sent) clusterName addonName input err tail where
      "AddonParseResourceID env (d_Id (rdata s)) = Inr (clusterName, addonName)"
      "d_HasChanges (rdata s) [''addon_version'', ''service_account_role_arn'', ''configuration_values'']"
      "new_events s s' = UpdateAddon_ev input err # tail"
      "update_attempts tail = []"
      "Update_ClientRequestToken input = Some (UniqueId env (uid_count s))"
      "Update_ResolveConflicts input =
         (if d_Get (rdata s) ''resolve_conflicts'' \<noteq> [] then d_Get (rdata s) ''resolve_conflicts''
          else if d_Get (rdata s) ''resolve_conflicts_on_update'' \<noteq> []
               then d_Get (rdata s) ''resolve_conflicts_on_update'' else [])"
      "Update_ServiceAccountRoleArn input =
         (if d_HasChange (rdata s) ''service_account_role_arn'' \<or>
             d_Get (rdata s) ''service_account_role_arn'' \<noteq> []
          then Some (d_Get (rdata s) ''service_account_role_arn'') else None)"
proof (cases "AddonParseResourceID env (d_Id (rdata s))")
  case (Inl e)
  with run have "events s' = events s" by (auto simp: resourceAddonUpdate_def)
  then have "new_events s s' = []" by (simp add: new_events_def)
  then show ?thesis using refresh by simp
next
  case (Inr p)
  obtain c a where p: "p = (c, a)" by (cases p)
  show ?thesis
  proof (cases "d_HasChanges (rdata s) [''addon_version'', ''service_account_role_arn'', ''configuration_values'']")
    case False
    from run resourceAddonUpdate_unchanged[OF False, of env]
    obtain dg where "resourceAddonRead env s = (dg, s')" by (auto split: prod.splits)
    from resourceAddonRead_new_events[OF this] have "update_attempts (new_events s s') = []" by auto
    then show ?thesis using refresh by simp
  next
    case True
    define s1 where "s1 = s\<lparr>uid_count := Suc (uid_count s)\<rparr>"
    define input3 where "input3 =
      (let input =
             \<lparr>Update_AddonName = Some a,
              Update_ClientRequestToken = Some (UniqueId env (uid_count s)),
              Update_ClusterName = Some c,
              Update_AddonVersion = None,
              Update_ConfigurationValues = None,
              Update_ResolveConflicts = [],
              Update_ServiceAccountRoleArn = None\<rparr>;
           input =
             (if d_HasChange (rdata s1) ''addon_version''
              then input\<lparr>Update_AddonVersion := Some (d_Get (rdata s1) ''addon_version'')\<rparr>
              else input);
           input =
             (if d_HasChange (rdata s1) ''configuration_values''
              then input\<lparr>Update_ConfigurationValues :=
                            Some (d_Get (rdata s1) ''configuration_values'')\<rparr>
              else input)
       in input)"
    define cr where "cr =
      (case d_GetOk (rdata s1) ''resolve_conflicts'' of
         (v, ok) \<Rightarrow>
           if ok then (''resolve_conflicts'', v, input3\<lparr>Update_ResolveConflicts := v\<rparr>)
           else (case d_GetOk (rdata s1) ''resolve_conflicts_on_update'' of
                   (v, ok) \<Rightarrow>
                     if ok
                     then (''resolve_conflicts_on_update'', v,
                           input3\<lparr>Update_ResolveConflicts := v\<rparr>)
                     else ([], [], input3)))"
    define K where "K = (\<lambda>conflictResolutionAttr conflictResolution input.
      case client_UpdateAddon env input s1 of
        (Inl err, s2) \<Rightarrow>
          (Return (sdkdiag_AppendErrorf []
             (''updating EKS Add-On ('' @ d_Id (rdata s2) @ ''): '' @ err_Error err)), s2)
      | (Inr output, s2) \<Rightarrow>
          (case Output_Update output of
             None \<Rightarrow> (Panic, s2)
           | Some upd \<Rightarrow>
               (let updateID = aws_ToString (Update_Id upd)
                in case client_waitAddonUpdateSuccessful env c a updateID
                          (d_Timeout (rdata s2) schema_TimeoutUpdate) s2 of
                  (Some err, s3) \<Rightarrow>
                    if conflictResolution \<noteq> types_ResolveConflictsOverwrite
                    then
                      (Return (sdkdiag_AppendErrorf []
                         (''waiting for EKS Add-On ('' @ d_Id (rdata s3) @ '') update ('' @
                          updateID @ ''): '' @ err_Error err @
                          ''. Consider setting attribute '' @ fmt_q conflictResolutionAttr @
                          '' to '' @ fmt_q types_ResolveConflictsOverwrite)), s3)
                    else
                      (Return (sdkdiag_AppendErrorf []
                         (''waiting for EKS Add-On ('' @ d_Id (rdata s3) @ '') update ('' @
                          updateID @ ''): '' @ err_Error err)), s3)
                | (None, s3) \<Rightarrow>
                    (case resourceAddonRead env s3 of (rdiags, s') \<Rightarrow> (Return ([] @ rdiags), s')))))"
    have unfolded: "resourceAddonUpdate env s =
      (case cr of
         (conflictResolutionAttr, conflictResolution, input) \<Rightarrow>
           K conflictResolutionAttr conflictResolution
             (if d_HasChange (rdata s1) ''service_account_role_arn'' \<or>
                 d_Get (rdata s1) ''service_account_role_arn'' \<noteq> []
              then input\<lparr>Update_ServiceAccountRoleArn :=
                            Some (d_Get (rdata s1) ''service_account_role_arn'')\<rparr>
              else input))"
      unfolding resourceAddonUpdate_def Inr p sum.case prod.case Let_def if_P[OF True]
        sdkid_UniqueId_def K_def cr_def input3_def s1_def
      by (rule refl)
    obtain attr cres inp where cr3: "cr = (attr, cres, inp)" by (cases cr)
    define input where "input =
             (if d_HasChange (rdata s1) ''service_account_role_arn'' \<or>
                 d_Get (rdata s1) ''service_account_role_arn'' \<noteq> []
              then inp\<lparr>Update_ServiceAccountRoleArn :=
                            Some (d_Get (rdata s1) ''service_account_role_arn'')\<rparr>
              else inp)"
    have runK: "K attr cres input = (res, s')"
      using run unfolded cr3 by (simp add: input_def)
    have rd1: "rdata s1 = rdata s" by (simp add: s1_def)
    have inp: "inp = (if d_Get (rdata s) ''resolve_conflicts'' \<noteq> []
                      then input3\<lparr>Update_ResolveConflicts := d_Get (rdata s) ''resolve_conflicts''\<rparr>
                      else if d_Get (rdata s) ''resolve_conflicts_on_update'' \<noteq> []
                      then input3\<lparr>Update_ResolveConflicts := d_Get (rdata s) ''resolve_conflicts_on_update''\<rparr>
                      else input3)"
      using cr3 by (auto simp: cr_def d_GetOk_def d_Get_def rd1 split: if_splits)
    have tok3: "Update_ClientRequestToken input3 = Some (UniqueId env (uid_count s))"
      and pol3: "Update_ResolveConflicts input3 = []"
      and sarn3: "Update_ServiceAccountRoleArn input3 = None"
      by (simp_all add: input3_def Let_def)
    have tok: "Update_ClientRequestToken input = Some (UniqueId env (uid_count s))"
      by (simp add: input_def inp tok3)
    have pol: "Update_ResolveConflicts input =
         (if d_Get (rdata s) ''resolve_conflicts'' \<noteq> [] then d_Get (rdata s) ''resolve_conflicts''
          else if d_Get (rdata s) ''resolve_conflicts_on_update'' \<noteq> []
               then d_Get (rdata s) ''resolve_conflicts_on_update'' else [])"
      by (simp add: input_def inp pol3)
    have sarn: "Update_ServiceAccountRoleArn input =
         (if d_HasChange (rdata s) ''service_account_role_arn'' \<or>
             d_Get (rdata s) ''service_account_role_arn'' \<noteq> []
          then Some (d_Get (rdata s) ''service_account_role_arn'') else None)"
      by (simp add: input_def inp sarn3 rd1)
    have ev1: "events s1 = events s" by (simp add: s1_def)
    have "\<exists>err tail. events s' = events s1 @ UpdateAddon_ev input err # tail \<and> update_attempts tail = []"
      using runK
      by (auto simp: K_def client_UpdateAddon_def client_waitAddonUpdateSuccessful_def Let_def
          split: prod.splits sum.splits option.splits if_splits
          dest!: resourceAddonRead_events)
    then obtain err tail where "events s' = events s @ UpdateAddon_ev input err # tail"
      "update_attempts tail = []" using ev1 by auto
    then have "new_events s s' = UpdateAddon_ev input err # tail"
      by (simp add: new_events_def)
    then show ?thesis
      using sent[OF _ True _ \<open>update_attempts tail = []\<close> tok pol sarn] Inr p by blast
  qed
qed

subsection \<open>Concrete runs\<close>

text \<open>
  Runs of the operations against the scripted remote service, evaluated in full: the
  diagnostics returned and the world left behind.
\<close>

lemmas fixture_defs = scripted_env_def outcome_def planned_addon_def world_of_def
  spec_AddonCreateResourceID_def spec_AddonParseResourceID_def sample_addon_def
  create_failed_def access_denied_def conflict_def

lemmas run_defs = resourceAddonCreate_def resourceAddonRead_def resourceAddonUpdate_def resourceAddonDelete_def
  sdkid_UniqueId_def getTagsIn_def setTagsOut_def SetId_def Set_attr_def
  client_CreateAddon_def waiter_WaitActive_def client_FindAddon_def client_UpdateAddon_def
  client_waitAddonUpdateSuccessful_def client_DeleteAddon_def waiter_WaitDeleted_def
  result_err_def create_retryable_def errs_IsA_def Error_of_def
  d_Id_def d_SetId_def d_IsNewResource_def d_Get_def d_GetOk_def d_GetOk_bool_def d_HasChange_def
  d_HasChanges_def d_Set_def d_Timeout_def schema_TimeoutCreate_def schema_TimeoutUpdate_def
  schema_TimeoutDelete_def sdkdiag_AppendErrorf_def sdkdiag_AppendWarningf_def sdkdiag_AppendFromErr_def
  aws_ToString_def format_RFC3339_def fmt_q_def types_ResolveConflictsOverwrite_def Let_def

lemmas fixture2_defs = established_addon_def not_found_def wait_timeout_def

lemmas fixture3_defs = role_added_def version_bumped_def version_bumped_with_role_def with_attr_def

lemma new_events_world_of [simp]:
  "new_events (world_of d) (w\<lparr>events := evs\<rparr>) = evs"
  by (simp add: new_events_def world_of_def)

lemma run_create_denied:
  "resourceAddonCreate (scripted_env [Some create_failed, Some access_denied] 3) (world_of planned_addon) =
     ([\<lparr>Severity = diag_Error,
        Summary = ''creating EKS Add-On (cluster-a:vpc-cni): AccessDeniedException: not authorized''\<rparr>],
      (world_of planned_addon)
        \<lparr>remote := 2, uid_count := 1,
          events := [CreateAddon_ev planned_request (Some create_failed),
                     CreateAddon_ev planned_request (Some access_denied)]\<rparr>)"
  by (simp add: run_defs fixture_defs planned_request_def numeral_3_eq_3)

lemma run_create_three_attempts:
  "resourceAddonCreate (scripted_env [Some create_failed, Some create_failed, Some access_denied] 3)
       (world_of planned_addon) =
     ([\<lparr>Severity = diag_Error,
        Summary = ''creating EKS Add-On (cluster-a:vpc-cni): AccessDeniedException: not authorized''\<rparr>],
      (world_of planned_addon)
        \<lparr>remote := 3, uid_count := 1,
          events := [CreateAddon_ev planned_request (Some create_failed),
                     CreateAddon_ev planned_request (Some create_failed),
                     CreateAddon_ev planned_request (Some access_denied)]\<rparr>)"
  by (simp add: run_defs fixture_defs planned_request_def numeral_3_eq_3)

lemma run_create_wait_failed:
  "resourceAddonCreate (scripted_env [Some create_failed, None, Some conflict] 3) (world_of planned_addon) =
     ([\<lparr>Severity = diag_Error,
        Summary = ''waiting for EKS Add-On (cluster-a:vpc-cni) create: ConfigurationConflict: Apply failed with 1 conflict''\<rparr>,
       \<lparr>Severity = diag_Warning,
        Summary = ''Running terraform apply again will remove the kubernetes add-on and attempt to create it again effectively purging previous add-on configuration''\<rparr>],
      (world_of planned_addon)
        \<lparr>rdata := planned_addon\<lparr>rd_id := ''cluster-a:vpc-cni''\<rparr>,
          remote := 3, uid_count := 1,
          events := [CreateAddon_ev planned_request (Some create_failed),
                     CreateAddon_ev planned_request None,
                     SetId_ev ''cluster-a:vpc-cni'',
                     AddonActiveWait_ev describe_request 1200 (Some conflict)]\<rparr>)"
  by (simp add: run_defs fixture_defs planned_request_def describe_request_def numeral_3_eq_3)

lemma run_create_legacy_and_split:
  "resourceAddonCreate (scripted_env [Some access_denied] 3)
       (world_of (planned_addon\<lparr>rd_new := (rd_new planned_addon)
          (''resolve_conflicts'' := ''OVERWRITE'', ''resolve_conflicts_on_create'' := ''NONE'')\<rparr>)) =
     ([\<lparr>Severity = diag_Error,
        Summary = ''creating EKS Add-On (cluster-a:vpc-cni): AccessDeniedException: not authorized''\<rparr>],
      (world_of (planned_addon\<lparr>rd_new := (rd_new planned_addon)
          (''resolve_conflicts'' := ''OVERWRITE'', ''resolve_conflicts_on_create'' := ''NONE'')\<rparr>))
        \<lparr>remote := 1, uid_count := 1,
          events := [CreateAddon_ev (planned_request\<lparr>Create_ResolveConflicts := ''OVERWRITE''\<rparr>)
                       (Some access_denied)]\<rparr>)"
  by (simp add: run_defs fixture_defs planned_request_def numeral_3_eq_3)

lemma run_update_split_only:
  "resourceAddonUpdate (scripted_env [Some access_denied] 3)
       (world_of (with_attr ''resolve_conflicts_on_update'' ''PRESERVE'' version_bumped)) =
     (Return [\<lparr>Severity = diag_Error,
        Summary = ''updating EKS Add-On (cluster-a:vpc-cni): AccessDeniedException: not authorized''\<rparr>],
      (world_of (with_attr ''resolve_conflicts_on_update'' ''PRESERVE'' version_bumped))
        \<lparr>remote := 1, uid_count := 1,
          events := [UpdateAddon_ev
                       (update_request\<lparr>Update_AddonVersion := Some ''v1.3.0'',
                                       Update_ResolveConflicts := ''PRESERVE''\<rparr>)
                       (Some access_denied)]\<rparr>)"
  by (simp add: run_defs fixture_defs fixture2_defs fixture3_defs update_request_def)

lemma run_update_role_added:
  "resourceAddonUpdate (scripted_env [Some access_denied] 3) (world_of role_added) =
     (Return [\<lparr>Severity = diag_Error,
        Summary = ''updating EKS Add-On (cluster-a:vpc-cni): AccessDeniedException: not authorized''\<rparr>],
      (world_of role_added)
        \<lparr>remote := 1, uid_count := 1,
          events := [UpdateAddon_ev
                       (update_request\<lparr>Update_ServiceAccountRoleArn :=
                          Some ''arn:aws:iam::123456789012:role/role-x''\<rparr>)
                       (Some access_denied)]\<rparr>)"
  by (simp add: run_defs fixture_defs fixture2_defs fixture3_defs update_request_def)

lemma run_update_role_kept:
  "resourceAddonUpdate (scripted_env [Some access_denied] 3) (world_of version_bumped_with_role) =
     (Return [\<lparr>Severity = diag_Error,
        Summary = ''updating EKS Add-On (cluster-a:vpc-cni): AccessDeniedException: not authorized''\<rparr>],
      (world_of version_bumped_with_role)
        \<lparr>remote := 1, uid_count := 1,
          events := [UpdateAddon_ev
                       (update_request\<lparr>Update_AddonVersion := Some ''v1.3.0'',
                          Update_ServiceAccountRoleArn :=
                            Some ''arn:aws:iam::123456789012:role/role-x''\<rparr>)
                       (Some access_denied)]\<rparr>)"
  by (simp add: run_defs fixture_defs fixture2_defs fixture3_defs update_request_def)

lemma run_update_unchanged:
  "resourceAddonUpdate (scripted_env [Some not_found] 3) (world_of established_addon) =
     (Return [],
      (world_of established_addon)
        \<lparr>rdata := established_addon\<lparr>rd_id := []\<rparr>, remote := 1,
          events := [FindAddon_ev ''cluster-a'' ''vpc-cni'' (Some not_found), SetId_ev []]\<rparr>)"
  by (simp add: run_defs fixture_defs fixture2_defs)

lemma run_delete_not_found:
  "resourceAddonDelete (scripted_env [Some not_found] 0) (world_of established_addon) =
     ([\<lparr>Severity = diag_Error,
        Summary = ''deleting EKS Add-On (cluster-a:vpc-cni): ResourceNotFoundException: No addon: vpc-cni found in cluster: cluster-a''\<rparr>],
      (world_of established_addon)\<lparr>remote := 1, events := [DeleteAddon_ev delete_request (Some not_found)]\<rparr>)"
  by (simp add: run_defs fixture_defs fixture2_defs delete_request_def)

section \<open>The claims\<close>

subsection \<open>Create\<close>

text \<open>
  Claim C1. In every create operation the remote create call is made at least once,
  and attempt \<open>k\<close> is followed by another attempt exactly when it failed with an
  invalid-parameter error whose text contains \<^verbatim>\<open>CREATE_FAILED\<close> or
  \<^verbatim>\<open>does not exist\<close> and the propagation-timeout budget is not used up. When the
  last attempt failed, with whatever error, the operation returns the error
  \<^verbatim>\<open>creating EKS Add-On\<close>, takes no step after that attempt, and leaves the resource
  data as it was.
\<close>

theorem create_retries_exactly_transient_failures:
  assumes "resourceAddonCreate env s = (diags, s')"
  shows "create_attempts (new_events s s') \<noteq> [] \<and>
         (\<forall>k<length (create_attempts (new_events s s')).
            (Suc k < length (create_attempts (new_events s s'))) =
            ((\<exists>e. snd (create_attempts (new_events s s') ! k) = Some e \<and>
                  err_type e = InvalidParameterException \<and>
                  (strings_Contains (err_Error e) ''CREATE_FAILED'' \<or>
                   strings_Contains (err_Error e) ''does not exist'')) \<and>
             k < propagationTimeout env)) \<and>
         (\<forall>e. snd (last (create_attempts (new_events s s'))) = Some e \<longrightarrow>
            diags = [\<lparr>Severity = diag_Error,
                      Summary = ''creating EKS Add-On ('' @
                        AddonCreateResourceID env (d_Get (rdata s) ''cluster_name'')
                          (d_Get (rdata s) ''addon_name'') @
                        ''): '' @ err_Error e\<rparr>] \<and>
            rdata s' = rdata s \<and>
            new_events s s' = map (\<lambda>(input, err). CreateAddon_ev input err)
                                (create_attempts (new_events s s')))"
proof -
  let ?id = "AddonCreateResourceID env (d_Get (rdata s) ''cluster_name'') (d_Get (rdata s) ''addon_name'')"
  obtain input rs tail where
    rs: "rs \<noteq> []"
      "\<forall>k<length rs. (Suc k < length rs) = (retried_class (rs ! k) \<and> k < propagationTimeout env)"
    and ne: "new_events s s' = map (CreateAddon_ev input) rs @ tail" "create_attempts tail = []"
    and failed: "\<forall>e. last rs = Some e \<longrightarrow>
       tail = [] \<and> rdata s' = rdata s \<and>
       diags = [\<lparr>Severity = diag_Error,
                 Summary = ''creating EKS Add-On ('' @ ?id @ ''): '' @ err_Error e\<rparr>]"
    by (rule resourceAddonCreate_trace[OF assms])
  have atts: "create_attempts (new_events s s') = map (Pair input) rs"
    by (simp add: ne create_attempts_append create_attempts_map)
  have len: "length (map (Pair input) rs) = length rs" by simp
  have nth: "\<And>k. k < length rs \<Longrightarrow> snd (map (Pair input) rs ! k) = rs ! k" by simp
  have lst: "snd (last (map (Pair input) rs)) = last rs"
    using rs(1) by (simp add: last_map)
  have c1: "map (Pair input) rs \<noteq> []" using rs(1) by simp
  have c2: "\<forall>k<length (map (Pair input) rs).
            (Suc k < length (map (Pair input) rs)) =
            (retried_class (snd (map (Pair input) rs ! k)) \<and> k < propagationTimeout env)"
  proof (intro allI impI)
    fix k assume "k < length (map (Pair input) rs)"
    then have k: "k < length rs" by simp
    with rs(2) have "(Suc k < length rs) = (retried_class (rs ! k) \<and> k < propagationTimeout env)"
      by blast
    then show "(Suc k < length (map (Pair input) rs)) =
            (retried_class (snd (map (Pair input) rs ! k)) \<and> k < propagationTimeout env)"
      by (simp only: len nth[OF k])
  qed
  have c3: "\<forall>e. snd (last (map (Pair input) rs)) = Some e \<longrightarrow>
            diags = [\<lparr>Severity = diag_Error,
                      Summary = ''creating EKS Add-On ('' @ ?id @ ''): '' @ err_Error e\<rparr>] \<and>
            rdata s' = rdata s \<and>
            new_events s s' = map (\<lambda>(input, err). CreateAddon_ev input err) (map (Pair input) rs)"
  proof (intro allI impI)
    fix e assume "snd (last (map (Pair input) rs)) = Some e"
    then have "last rs = Some e" by (simp only: lst)
    with failed have "tail = []" "rdata s' = rdata s"
      "diags = [\<lparr>Severity = diag_Error,
                 Summary = ''creating EKS Add-On ('' @ ?id @ ''): '' @ err_Error e\<rparr>]"
      by blast+
    then show "diags = [\<lparr>Severity = diag_Error,
                      Summary = ''creating EKS Add-On ('' @ ?id @ ''): '' @ err_Error e\<rparr>] \<and>
            rdata s' = rdata s \<and>
            new_events s s' = map (\<lambda>(input, err). CreateAddon_ev input err) (map (Pair input) rs)"
      using ne(1) by simp
  qed
  show ?thesis unfolding atts using c1 c2 c3 by (intro conjI)
qed

text \<open>
  A run of C1 with a budget of three retries: the first attempt meets
  \<^verbatim>\<open>CREATE_FAILED\<close> and is retried; the second is denied, which is not of the retried
  class, and ends the operation.
\<close>

theorem create_retries_exactly_transient_failures_witness:
  "resourceAddonCreate (scripted_env [Some create_failed, Some access_denied] 3) (world_of planned_addon) =
     ([\<lparr>Severity = diag_Error,
        Summary = ''creating EKS Add-On (cluster-a:vpc-cni): AccessDeniedException: not authorized''\<rparr>],
      (world_of planned_addon)
        \<lparr>remote := 2, uid_count := 1,
          events := [CreateAddon_ev planned_request (Some create_failed),
                     CreateAddon_ev planned_request (Some access_denied)]\<rparr>) \<and>
   retried_class (Some create_failed) \<and>
   \<not> retried_class (Some access_denied)"
proof -
  let ?atts = "[(planned_request, Some create_failed), (planned_request, Some access_denied)]"
  have atts: "create_attempts [CreateAddon_ev planned_request (Some create_failed),
                     CreateAddon_ev planned_request (Some access_denied)] = ?atts" by simp
  have budget: "propagationTimeout (scripted_env [Some create_failed, Some access_denied] 3) = 3"
    by (simp add: scripted_env_def)
  from create_retries_exactly_transient_failures[OF run_create_denied]
  have shape: "\<forall>k<length ?atts.
     (Suc k < length ?atts) = (retried_class (snd (?atts ! k)) \<and> k < 3)"
    unfolding new_events_world_of atts budget by (rule conjunct1[OF conjunct2])
  from shape[rule_format, of 0] have first: "retried_class (Some create_failed)" by simp
  from shape[rule_format, of 1] have second: "\<not> retried_class (Some access_denied)" by simp
  from run_create_denied first second show ?thesis by (intro conjI)
qed

text \<open>
  Claim C2 says that no two attempts of one create operation send the same client
  request token. The request is built once, before the retry loop, and every attempt
  sends that request: in the run below, whose first attempt meets
  \<^verbatim>\<open>CREATE_FAILED\<close>, both attempts carry the token \<^verbatim>\<open>terraform-1\<close>.
\<close>

theorem create_attempts_repeat_token_counterexample:
  "map (Create_ClientRequestToken \<circ> fst)
     (create_attempts (new_events (world_of planned_addon)
        (snd (resourceAddonCreate (scripted_env [Some create_failed, None, Some conflict] 3)
                (world_of planned_addon)))))
     = [Some ''terraform-1'', Some ''terraform-1''] \<and>
   \<not> distinct (map (Create_ClientRequestToken \<circ> fst)
     (create_attempts (new_events (world_of planned_addon)
        (snd (resourceAddonCreate (scripted_env [Some create_failed, None, Some conflict] 3)
                (world_of planned_addon))))))"
  by (simp add: run_create_wait_failed planned_request_def)

text \<open>
  Claim C2, as amended. A create operation draws exactly one identifier from
  \<^verbatim>\<open>sdkid.UniqueId\<close>, and every attempt of its remote create call sends that
  identifier as the client request token.
\<close>

theorem create_attempts_share_one_token:
  assumes "resourceAddonCreate env s = (diags, s')"
  shows "uid_count s' = Suc (uid_count s) \<and>
         (\<forall>attempt \<in> set (create_attempts (new_events s s')).
            Create_ClientRequestToken (fst attempt) = Some (UniqueId env (uid_count s)))"
proof -
  obtain input rs tail where
    tok: "Create_ClientRequestToken input = Some (UniqueId env (uid_count s))"
    and ne: "new_events s s' = map (CreateAddon_ev input) rs @ tail" "create_attempts tail = []"
    and uid: "uid_count s' = Suc (uid_count s)"
    by (rule resourceAddonCreate_trace[OF assms])
  have "create_attempts (new_events s s') = map (Pair input) rs"
    by (simp add: ne create_attempts_append create_attempts_map)
  with tok uid show ?thesis by auto
qed

text \<open>
  A run of the amended C2 with three attempts, all with the one request.
\<close>

theorem create_attempts_share_one_token_witness:
  "resourceAddonCreate (scripted_env [Some create_failed, Some create_failed, Some access_denied] 3)
       (world_of planned_addon) =
     ([\<lparr>Severity = diag_Error,
        Summary = ''creating EKS Add-On (cluster-a:vpc-cni): AccessDeniedException: not authorized''\<rparr>],
      (world_of planned_addon)
        \<lparr>remote := 3, uid_count := 1,
          events := [CreateAddon_ev planned_request (Some create_failed),
                     CreateAddon_ev planned_request (Some create_failed),
                     CreateAddon_ev planned_request (Some access_denied)]\<rparr>) \<and>
   Create_ClientRequestToken planned_request = Some ''terraform-1''"
proof -
  from create_attempts_share_one_token[OF run_create_three_attempts]
  have "Create_ClientRequestToken planned_request =
          Some (UniqueId (scripted_env [Some create_failed, Some create_failed, Some access_denied] 3)
                  (uid_count (world_of planned_addon)))"
    by simp
  then have "Create_ClientRequestToken planned_request = Some ''terraform-1''"
    by (simp add: scripted_env_def world_of_def)
  with run_create_three_attempts show ?thesis by (intro conjI)
qed

text \<open>
  Claim C3. In every create operation whose remote create call was accepted (the last
  attempt returned no error), the next two steps are \<^verbatim>\<open>d.SetId\<close> with the composite
  identifier and then the wait for the active status. When that wait fails, nothing
  follows it (no retry, no read), the identifier is still set, and the operation
  returns the error \<^verbatim>\<open>waiting for EKS Add-On ... create\<close> followed by the warning
  that applying again removes the add-on and creates it again, purging its previous
  configuration.
\<close>

theorem create_sets_id_before_wait:
  assumes "resourceAddonCreate env s = (diags, s')"
    and "snd (last (create_attempts (new_events s s'))) = None"
  shows "\<exists>werr rest.
           new_events s s' =
             map (\<lambda>(input, err). CreateAddon_ev input err) (create_attempts (new_events s s')) @
             SetId_ev (AddonCreateResourceID env (d_Get (rdata s) ''cluster_name'')
                         (d_Get (rdata s) ''addon_name'')) #
             AddonActiveWait_ev
               \<lparr>Describe_AddonName = Some (d_Get (rdata s) ''addon_name''),
                Describe_ClusterName = Some (d_Get (rdata s) ''cluster_name'')\<rparr>
               (d_Timeout (rdata s) schema_TimeoutCreate) werr #
             rest \<and>
           (\<forall>e. werr = Some e \<longrightarrow>
              rest = [] \<and>
              d_Id (rdata s') =
                AddonCreateResourceID env (d_Get (rdata s) ''cluster_name'') (d_Get (rdata s) ''addon_name'') \<and>
              diags =
                [\<lparr>Severity = diag_Error,
                  Summary = ''waiting for EKS Add-On ('' @
                    AddonCreateResourceID env (d_Get (rdata s) ''cluster_name'')
                      (d_Get (rdata s) ''addon_name'') @
                    '') create: '' @ err_Error e\<rparr>,
                 \<lparr>Severity = diag_Warning,
                  Summary = ''Running terraform apply again will remove the kubernetes add-on and attempt to create it again effectively purging previous add-on configuration''\<rparr>])"
proof -
  let ?id = "AddonCreateResourceID env (d_Get (rdata s) ''cluster_name'') (d_Get (rdata s) ''addon_name'')"
  let ?params = "\<lparr>Describe_AddonName = Some (d_Get (rdata s) ''addon_name''),
                  Describe_ClusterName = Some (d_Get (rdata s) ''cluster_name'')\<rparr>"
  let ?t = "d_Timeout (rdata s) schema_TimeoutCreate"
  obtain input rs tail where
    rs: "rs \<noteq> []"
    and ne: "new_events s s' = map (CreateAddon_ev input) rs @ tail" "create_attempts tail = []"
    and accepted: "last rs = None \<longrightarrow>
       (\<exists>werr rest.
         tail = SetId_ev ?id # AddonActiveWait_ev ?params ?t werr # rest \<and>
         (\<forall>e. werr = Some e \<longrightarrow>
            rest = [] \<and> d_Id (rdata s') = ?id \<and>
            diags = [\<lparr>Severity = diag_Error,
                      Summary = ''waiting for EKS Add-On ('' @ ?id @ '') create: '' @ err_Error e\<rparr>,
                     \<lparr>Severity = diag_Warning,
                      Summary = ''Running terraform apply again will remove the kubernetes add-on and attempt to create it again effectively purging previous add-on configuration''\<rparr>]))"
    by (rule resourceAddonCreate_trace[OF assms(1)])
  have atts: "create_attempts (new_events s s') = map (Pair input) rs"
    by (simp add: ne create_attempts_append create_attempts_map)
  have "snd (last (map (Pair input) rs)) = last rs"
    using rs by (simp add: last_map)
  with assms(2) atts have "last rs = None" by simp
  with accepted obtain werr rest where
    tail: "tail = SetId_ev ?id # AddonActiveWait_ev ?params ?t werr # rest"
    and failed: "\<forall>e. werr = Some e \<longrightarrow>
            rest = [] \<and> d_Id (rdata s') = ?id \<and>
            diags = [\<lparr>Severity = diag_Error,
                      Summary = ''waiting for EKS Add-On ('' @ ?id @ '') create: '' @ err_Error e\<rparr>,
                     \<lparr>Severity = diag_Warning,
                      Summary = ''Running terraform apply again will remove the kubernetes add-on and attempt to create it again effectively purging previous add-on configuration''\<rparr>]"
    by blast
  have "map (\<lambda>(input, err). CreateAddon_ev input err) (map (Pair input) rs) = map (CreateAddon_ev input) rs"
    by simp
  then have "new_events s s' =
             map (\<lambda>(input, err). CreateAddon_ev input err) (create_attempts (new_events s s')) @
             SetId_ev ?id # AddonActiveWait_ev ?params ?t werr # rest"
    using ne(1) tail atts by simp
  with failed show ?thesis by blast
qed

text \<open>
  A run of C3: the second attempt of the create call is accepted and the wait fails;
  the identifier stays set.
\<close>

theorem create_sets_id_before_wait_witness:
  "resourceAddonCreate (scripted_env [Some create_failed, None, Some conflict] 3) (world_of planned_addon) =
     ([\<lparr>Severity = diag_Error,
        Summary = ''waiting for EKS Add-On (cluster-a:vpc-cni) create: ConfigurationConflict: Apply failed with 1 conflict''\<rparr>,
       \<lparr>Severity = diag_Warning,
        Summary = ''Running terraform apply again will remove the kubernetes add-on and attempt to create it again effectively purging previous add-on configuration''\<rparr>],
      (world_of planned_addon)
        \<lparr>rdata := planned_addon\<lparr>rd_id := ''cluster-a:vpc-cni''\<rparr>,
          remote := 3, uid_count := 1,
          events := [CreateAddon_ev planned_request (Some create_failed),
                     CreateAddon_ev planned_request None,
                     SetId_ev ''cluster-a:vpc-cni'',
                     AddonActiveWait_ev describe_request 1200 (Some conflict)]\<rparr>) \<and>
   d_Id (planned_addon\<lparr>rd_id := ''cluster-a:vpc-cni''\<rparr>) = ''cluster-a:vpc-cni''"
proof -
  let ?s' = "(world_of planned_addon)
        \<lparr>rdata := planned_addon\<lparr>rd_id := ''cluster-a:vpc-cni''\<rparr>,
          remote := 3, uid_count := 1,
          events := [CreateAddon_ev planned_request (Some create_failed),
                     CreateAddon_ev planned_request None,
                     SetId_ev ''cluster-a:vpc-cni'',
                     AddonActiveWait_ev describe_request 1200 (Some conflict)]\<rparr>"
  have accepted: "snd (last (create_attempts (new_events (world_of planned_addon) ?s'))) = None"
    by simp
  have ident: "AddonCreateResourceID (scripted_env [Some create_failed, None, Some conflict] 3)
      (d_Get (rdata (world_of planned_addon)) ''cluster_name'')
      (d_Get (rdata (world_of planned_addon)) ''addon_name'') = ''cluster-a:vpc-cni''"
    by (simp add: fixture_defs d_Get_def)
  from create_sets_id_before_wait[OF run_create_wait_failed accepted]
  obtain werr rest where
    steps: "[CreateAddon_ev planned_request (Some create_failed), CreateAddon_ev planned_request None,
       SetId_ev ''cluster-a:vpc-cni'', AddonActiveWait_ev describe_request 1200 (Some conflict)] =
      [CreateAddon_ev planned_request (Some create_failed), CreateAddon_ev planned_request None] @
      SetId_ev ''cluster-a:vpc-cni'' #
      AddonActiveWait_ev
        \<lparr>Describe_AddonName = Some (d_Get (rdata (world_of planned_addon)) ''addon_name''),
         Describe_ClusterName = Some (d_Get (rdata (world_of planned_addon)) ''cluster_name'')\<rparr>
        (d_Timeout (rdata (world_of planned_addon)) schema_TimeoutCreate) werr # rest"
    and failed: "\<forall>e. werr = Some e \<longrightarrow> d_Id (rdata ?s') = ''cluster-a:vpc-cni''"
    unfolding ident new_events_world_of by auto
  from steps have "werr = Some conflict" by simp
  with failed have "d_Id (rdata ?s') = ''cluster-a:vpc-cni''" by blast
  then have "d_Id (planned_addon\<lparr>rd_id := ''cluster-a:vpc-cni''\<rparr>) = ''cluster-a:vpc-cni''"
    by (simp add: world_of_def)
  with run_create_wait_failed show ?thesis by (intro conjI)
qed

subsection \<open>Read\<close>

text \<open>
  Claim C5. When the identifier decodes and the finder reports a
  \<^verbatim>\<open>ResourceNotFoundException\<close>: for an established record the read returns no
  diagnostics and clears the identifier; for a record marked new it returns the error
  \<^verbatim>\<open>reading EKS Add-On\<close> and leaves the identifier.
\<close>

theorem read_not_found:
  assumes "AddonParseResourceID env (d_Id (rdata s)) = Inr (clusterName, addonName)"
    and "FindAddonByClusterNameAndAddonName env clusterName addonName (remote s) = (Inl e, r)"
    and "err_type e = ResourceNotFoundException"
  shows "resourceAddonRead env s =
     (if d_IsNewResource (rdata s)
      then ([\<lparr>Severity = diag_Error,
              Summary = ''reading EKS Add-On ('' @ d_Id (rdata s) @ ''): '' @ err_Error e\<rparr>],
            s\<lparr>remote := r, events := events s @ [FindAddon_ev clusterName addonName (Some e)]\<rparr>)
      else ([],
            s\<lparr>rdata := (rdata s)\<lparr>rd_id := []\<rparr>, remote := r,
              events := events s @ [FindAddon_ev clusterName addonName (Some e), SetId_ev []]\<rparr>))"
  using assms
  by (simp add: resourceAddonRead_def client_FindAddon_def result_err_def errs_IsA_def SetId_def
      d_SetId_def d_Id_def d_IsNewResource_def sdkdiag_AppendErrorf_def Let_def)

text \<open>
  Two runs of C5, on the same record: established, and marked new.
\<close>

theorem read_not_found_witness:
  "resourceAddonRead (scripted_env [Some not_found] 0) (world_of established_addon) =
     ([], (world_of established_addon)
            \<lparr>rdata := established_addon\<lparr>rd_id := []\<rparr>, remote := 1,
              events := [FindAddon_ev ''cluster-a'' ''vpc-cni'' (Some not_found), SetId_ev []]\<rparr>) \<and>
   resourceAddonRead (scripted_env [Some not_found] 0)
       (world_of (established_addon\<lparr>rd_isNew := True\<rparr>)) =
     ([\<lparr>Severity = diag_Error,
        Summary = ''reading EKS Add-On (cluster-a:vpc-cni): ResourceNotFoundException: No addon: vpc-cni found in cluster: cluster-a''\<rparr>],
      (world_of (established_addon\<lparr>rd_isNew := True\<rparr>))
        \<lparr>remote := 1, events := [FindAddon_ev ''cluster-a'' ''vpc-cni'' (Some not_found)]\<rparr>)"
  using
    read_not_found[of "scripted_env [Some not_found] 0" "world_of established_addon"
      "''cluster-a''" "''vpc-cni''" not_found 1]
    read_not_found[of "scripted_env [Some not_found] 0" "world_of (established_addon\<lparr>rd_isNew := True\<rparr>)"
      "''cluster-a''" "''vpc-cni''" not_found 1]
  by (simp add: fixture_defs fixture2_defs d_Id_def d_IsNewResource_def)

subsection \<open>Delete\<close>

text \<open>
  Claim C4 says that a failed wait for the deleted status is surfaced in the
  diagnostics the delete returns. The code calls \<^verbatim>\<open>sdkdiag.AppendErrorf\<close> and drops
  the slice it returns: in the run below the remote delete call is accepted, the wait
  fails, and the delete returns no diagnostics at all.
\<close>

theorem delete_wait_failure_is_dropped:
  "resourceAddonDelete (scripted_env [None, Some wait_timeout] 0) (world_of established_addon) =
     ([], (world_of established_addon)
            \<lparr>remote := 2,
              events := [DeleteAddon_ev delete_request None,
                         AddonDeletedWait_ev describe_request 1200 (Some wait_timeout)]\<rparr>)"
  by (simp add: run_defs fixture_defs fixture2_defs delete_request_def describe_request_def)

text \<open>
  Claim C10. Whenever the remote delete call itself returns an error, of whatever
  type, the delete returns the error \<^verbatim>\<open>deleting EKS Add-On\<close>, that call is its only
  step (no wait follows), and the resource data, with its identifier, is as before.
\<close>

theorem delete_call_error_fails:
  assumes "resourceAddonDelete env s = (diags, s')"
    and "DeleteAddon_ev input (Some e) \<in> set (new_events s s')"
  shows "diags = [\<lparr>Severity = diag_Error,
                   Summary = ''deleting EKS Add-On ('' @ d_Id (rdata s) @ ''): '' @ err_Error e\<rparr>] \<and>
         HasError diags \<and>
         rdata s' = rdata s \<and>
         new_events s s' = [DeleteAddon_ev input (Some e)]"
proof (cases "AddonParseResourceID env (d_Id (rdata s))")
  case (Inl err)
  with assms show ?thesis by (auto simp: resourceAddonDelete_def new_events_def)
next
  case (Inr p)
  with assms show ?thesis
    by (cases p)
       (auto simp: resourceAddonDelete_def new_events_def client_DeleteAddon_def waiter_WaitDeleted_def
          Let_def d_Id_def sdkdiag_AppendErrorf_def HasError_def
        split: prod.splits option.splits if_splits)
qed

text \<open>
  A run of C10 in which the remote component is already gone: the delete call returns
  a \<^verbatim>\<open>ResourceNotFoundException\<close>.
\<close>

theorem delete_call_error_fails_witness:
  "resourceAddonDelete (scripted_env [Some not_found] 0) (world_of established_addon) =
     ([\<lparr>Severity = diag_Error,
        Summary = ''deleting EKS Add-On (cluster-a:vpc-cni): ResourceNotFoundException: No addon: vpc-cni found in cluster: cluster-a''\<rparr>],
      (world_of established_addon)\<lparr>remote := 1, events := [DeleteAddon_ev delete_request (Some not_found)]\<rparr>) \<and>
   err_type not_found = ResourceNotFoundException \<and>
   HasError
     [\<lparr>Severity = diag_Error,
       Summary = ''deleting EKS Add-On (cluster-a:vpc-cni): ResourceNotFoundException: No addon: vpc-cni found in cluster: cluster-a''\<rparr>] \<and>
   rd_id (rdata ((world_of established_addon)
      \<lparr>remote := 1, events := [DeleteAddon_ev delete_request (Some not_found)]\<rparr>)) = ''cluster-a:vpc-cni''"
proof -
  have sent: "DeleteAddon_ev delete_request (Some not_found) \<in>
      set (new_events (world_of established_addon)
        ((world_of established_addon)\<lparr>remote := 1, events := [DeleteAddon_ev delete_request (Some not_found)]\<rparr>))"
    by simp
  from delete_call_error_fails[OF run_delete_not_found sent]
  have "HasError
     [\<lparr>Severity = diag_Error,
       Summary = ''deleting EKS Add-On (cluster-a:vpc-cni): ResourceNotFoundException: No addon: vpc-cni found in cluster: cluster-a''\<rparr>]"
    and "rdata ((world_of established_addon)
      \<lparr>remote := 1, events := [DeleteAddon_ev delete_request (Some not_found)]\<rparr>) = rdata (world_of established_addon)"
    by blast+
  moreover have "rd_id (rdata (world_of established_addon)) = ''cluster-a:vpc-cni''"
    by (simp add: world_of_def established_addon_def)
  moreover have "err_type not_found = ResourceNotFoundException" by (simp add: not_found_def)
  ultimately show ?thesis using run_delete_not_found by simp
qed

subsection \<open>The conflict-resolution policy\<close>

text \<open>
  Claim C6. Every request of the remote create call carries as conflict-resolution
  policy the value of \<^verbatim>\<open>resolve_conflicts\<close> when that is set, else the value of
  \<^verbatim>\<open>resolve_conflicts_on_create\<close> when that is set, else none; every request of the
  remote update call likewise, with \<^verbatim>\<open>resolve_conflicts_on_update\<close> as the second
  choice.
\<close>

theorem conflict_policy_precedence:
  "(resourceAddonCreate env s = (diags, s') \<longrightarrow>
      (\<forall>attempt \<in> set (create_attempts (new_events s s')).
         Create_ResolveConflicts (fst attempt) =
           (if d_Get (rdata s) ''resolve_conflicts'' \<noteq> [] then d_Get (rdata s) ''resolve_conflicts''
            else if d_Get (rdata s) ''resolve_conflicts_on_create'' \<noteq> []
                 then d_Get (rdata s) ''resolve_conflicts_on_create''
                 else []))) \<and>
   (resourceAddonUpdate env s = (res, s'') \<longrightarrow>
      (\<forall>attempt \<in> set (update_attempts (new_events s s'')).
         Update_ResolveConflicts (fst attempt) =
           (if d_Get (rdata s) ''resolve_conflicts'' \<noteq> [] then d_Get (rdata s) ''resolve_conflicts''
            else if d_Get (rdata s) ''resolve_conflicts_on_update'' \<noteq> []
                 then d_Get (rdata s) ''resolve_conflicts_on_update''
                 else [])))"
proof (intro conjI impI)
  assume run: "resourceAddonCreate env s = (diags, s')"
  obtain input rs tail where
    pol: "Create_ResolveConflicts input =
       (if d_Get (rdata s) ''resolve_conflicts'' \<noteq> [] then d_Get (rdata s) ''resolve_conflicts''
        else if d_Get (rdata s) ''resolve_conflicts_on_create'' \<noteq> []
             then d_Get (rdata s) ''resolve_conflicts_on_create'' else [])"
    and ne: "new_events s s' = map (CreateAddon_ev input) rs @ tail" "create_attempts tail = []"
    by (rule resourceAddonCreate_trace[OF run])
  have "create_attempts (new_events s s') = map (Pair input) rs"
    by (simp add: ne create_attempts_append create_attempts_map)
  with pol show "\<forall>attempt \<in> set (create_attempts (new_events s s')).
         Create_ResolveConflicts (fst attempt) =
           (if d_Get (rdata s) ''resolve_conflicts'' \<noteq> [] then d_Get (rdata s) ''resolve_conflicts''
            else if d_Get (rdata s) ''resolve_conflicts_on_create'' \<noteq> []
                 then d_Get (rdata s) ''resolve_conflicts_on_create''
                 else [])"
    by auto
next
  assume run: "resourceAddonUpdate env s = (res, s'')"
  from run show "\<forall>attempt \<in> set (update_attempts (new_events s s'')).
         Update_ResolveConflicts (fst attempt) =
           (if d_Get (rdata s) ''resolve_conflicts'' \<noteq> [] then d_Get (rdata s) ''resolve_conflicts''
            else if d_Get (rdata s) ''resolve_conflicts_on_update'' \<noteq> []
                 then d_Get (rdata s) ''resolve_conflicts_on_update''
                 else [])"
  proof (cases rule: resourceAddonUpdate_trace)
    case refresh
    then show ?thesis by simp
  next
    case (sent clusterName addonName input err tail)
    then show ?thesis by simp
  qed
qed

text \<open>
  Two runs of C6: a create with both the legacy and the create field set, which
  sends the legacy value, and an update with the update field alone.
\<close>

theorem conflict_policy_precedence_witness:
  "resourceAddonCreate (scripted_env [Some access_denied] 3)
       (world_of (planned_addon\<lparr>rd_new := (rd_new planned_addon)
          (''resolve_conflicts'' := ''OVERWRITE'', ''resolve_conflicts_on_create'' := ''NONE'')\<rparr>)) =
     ([\<lparr>Severity = diag_Error,
        Summary = ''creating EKS Add-On (cluster-a:vpc-cni): AccessDeniedException: not authorized''\<rparr>],
      (world_of (planned_addon\<lparr>rd_new := (rd_new planned_addon)
          (''resolve_conflicts'' := ''OVERWRITE'', ''resolve_conflicts_on_create'' := ''NONE'')\<rparr>))
        \<lparr>remote := 1, uid_count := 1,
          events := [CreateAddon_ev (planned_request\<lparr>Create_ResolveConflicts := ''OVERWRITE''\<rparr>)
                       (Some access_denied)]\<rparr>) \<and>
   Create_ResolveConflicts (planned_request\<lparr>Create_ResolveConflicts := ''OVERWRITE''\<rparr>) = ''OVERWRITE'' \<and>
   resourceAddonUpdate (scripted_env [Some access_denied] 3)
       (world_of (with_attr ''resolve_conflicts_on_update'' ''PRESERVE'' version_bumped)) =
     (Return [\<lparr>Severity = diag_Error,
        Summary = ''updating EKS Add-On (cluster-a:vpc-cni): AccessDeniedException: not authorized''\<rparr>],
      (world_of (with_attr ''resolve_conflicts_on_update'' ''PRESERVE'' version_bumped))
        \<lparr>remote := 1, uid_count := 1,
          events := [UpdateAddon_ev
                       (update_request\<lparr>Update_AddonVersion := Some ''v1.3.0'',
                                       Update_ResolveConflicts := ''PRESERVE''\<rparr>)
                       (Some access_denied)]\<rparr>) \<and>
   Update_ResolveConflicts (update_request\<lparr>Update_AddonVersion := Some ''v1.3.0'',
                                       Update_ResolveConflicts := ''PRESERVE''\<rparr>) = ''PRESERVE''"
proof -
  from conflict_policy_precedence[THEN conjunct1, rule_format, OF run_create_legacy_and_split,
      of "(planned_request\<lparr>Create_ResolveConflicts := ''OVERWRITE''\<rparr>, Some access_denied)"]
  have c: "Create_ResolveConflicts (planned_request\<lparr>Create_ResolveConflicts := ''OVERWRITE''\<rparr>) = ''OVERWRITE''"
    by (simp add: fixture_defs d_Get_def)
  from conflict_policy_precedence[THEN conjunct2, rule_format, OF run_update_split_only,
      of "(update_request\<lparr>Update_AddonVersion := Some ''v1.3.0'',
                          Update_ResolveConflicts := ''PRESERVE''\<rparr>, Some access_denied)"]
  have u: "Update_ResolveConflicts (update_request\<lparr>Update_AddonVersion := Some ''v1.3.0'',
                                       Update_ResolveConflicts := ''PRESERVE''\<rparr>) = ''PRESERVE''"
    by (simp add: fixture_defs established_addon_def not_found_def wait_timeout_def
        role_added_def version_bumped_def version_bumped_with_role_def with_attr_def d_Get_def)
  from run_create_legacy_and_split c run_update_split_only u show ?thesis by (intro conjI)
qed

subsection \<open>Update\<close>

text \<open>
  Claim C7. Every request of the remote update call carries the service account role
  exactly when the attribute has changed or is not empty, and then with its current
  value.
\<close>

theorem update_resends_service_account_role:
  assumes "resourceAddonUpdate env s = (res, s')"
    and "attempt \<in> set (update_attempts (new_events s s'))"
  shows "Update_ServiceAccountRoleArn (fst attempt) =
           (if d_HasChange (rdata s) ''service_account_role_arn'' \<or>
               d_Get (rdata s) ''service_account_role_arn'' \<noteq> []
            then Some (d_Get (rdata s) ''service_account_role_arn'')
            else None)"
  using assms(1)
proof (cases rule: resourceAddonUpdate_trace)
  case refresh
  with assms(2) show ?thesis by simp
next
  case (sent clusterName addonName input err tail)
  with assms(2) show ?thesis by simp
qed

text \<open>
  Two runs of C7: the role is the only attribute that differs; the role is unchanged
  and not empty while the version changes.
\<close>

theorem update_resends_service_account_role_witness:
  "resourceAddonUpdate (scripted_env [Some access_denied] 3) (world_of role_added) =
     (Return [\<lparr>Severity = diag_Error,
        Summary = ''updating EKS Add-On (cluster-a:vpc-cni): AccessDeniedException: not authorized''\<rparr>],
      (world_of role_added)
        \<lparr>remote := 1, uid_count := 1,
          events := [UpdateAddon_ev
                       (update_request\<lparr>Update_ServiceAccountRoleArn :=
                          Some ''arn:aws:iam::123456789012:role/role-x''\<rparr>)
                       (Some access_denied)]\<rparr>) \<and>
   Update_ServiceAccountRoleArn
       (update_request\<lparr>Update_ServiceAccountRoleArn := Some ''arn:aws:iam::123456789012:role/role-x''\<rparr>) =
     Some ''arn:aws:iam::123456789012:role/role-x'' \<and>
   resourceAddonUpdate (scripted_env [Some access_denied] 3) (world_of version_bumped_with_role) =
     (Return [\<lparr>Severity = diag_Error,
        Summary = ''updating EKS Add-On (cluster-a:vpc-cni): AccessDeniedException: not authorized''\<rparr>],
      (world_of version_bumped_with_role)
        \<lparr>remote := 1, uid_count := 1,
          events := [UpdateAddon_ev
                       (update_request\<lparr>Update_AddonVersion := Some ''v1.3.0'',
                          Update_ServiceAccountRoleArn :=
                            Some ''arn:aws:iam::123456789012:role/role-x''\<rparr>)
                       (Some access_denied)]\<rparr>) \<and>
   \<not> d_HasChange version_bumped_with_role ''service_account_role_arn'' \<and>
   Update_ServiceAccountRoleArn
       (update_request\<lparr>Update_AddonVersion := Some ''v1.3.0'',
          Update_ServiceAccountRoleArn := Some ''arn:aws:iam::123456789012:role/role-x''\<rparr>) =
     Some ''arn:aws:iam::123456789012:role/role-x''"
proof -
  note fx = fixture_defs established_addon_def role_added_def version_bumped_def
    version_bumped_with_role_def d_Get_def d_HasChange_def
  from update_resends_service_account_role[OF run_update_role_added,
      of "(update_request\<lparr>Update_ServiceAccountRoleArn :=
             Some ''arn:aws:iam::123456789012:role/role-x''\<rparr>, Some access_denied)"]
  have a: "Update_ServiceAccountRoleArn
       (update_request\<lparr>Update_ServiceAccountRoleArn := Some ''arn:aws:iam::123456789012:role/role-x''\<rparr>) =
     Some ''arn:aws:iam::123456789012:role/role-x''"
    by (simp add: fx)
  from update_resends_service_account_role[OF run_update_role_kept,
      of "(update_request\<lparr>Update_AddonVersion := Some ''v1.3.0'',
             Update_ServiceAccountRoleArn := Some ''arn:aws:iam::123456789012:role/role-x''\<rparr>,
           Some access_denied)"]
  have b: "Update_ServiceAccountRoleArn
       (update_request\<lparr>Update_AddonVersion := Some ''v1.3.0'',
          Update_ServiceAccountRoleArn := Some ''arn:aws:iam::123456789012:role/role-x''\<rparr>) =
     Some ''arn:aws:iam::123456789012:role/role-x''"
    by (simp add: fx)
  have same: "\<not> d_HasChange version_bumped_with_role ''service_account_role_arn''"
    by (simp add: fx)
  from run_update_role_added a run_update_role_kept same b show ?thesis by (intro conjI)
qed

text \<open>
  Claim C8. When none of version, configuration values and service account role
  differs from the prior state, the update is the read: it returns what
  \<^verbatim>\<open>resourceAddonRead\<close> returns, sends no update request, and its only steps are those
  of the read (at most one call of the finder, and the clearing of the identifier
  when the add-on is gone).
\<close>

theorem update_without_changes_only_refreshes:
  assumes "\<not> d_HasChange (rdata s) ''addon_version''"
    and "\<not> d_HasChange (rdata s) ''configuration_values''"
    and "\<not> d_HasChange (rdata s) ''service_account_role_arn''"
    and "resourceAddonUpdate env s = (res, s')"
  shows "(\<exists>rdiags. resourceAddonRead env s = (rdiags, s') \<and> res = Return rdiags) \<and>
         update_attempts (new_events s s') = [] \<and>
         (\<exists>clusterName addonName err.
            new_events s s' = [] \<or>
            new_events s s' = [FindAddon_ev clusterName addonName err] \<or>
            new_events s s' = [FindAddon_ev clusterName addonName err, SetId_ev []])"
proof -
  have "\<not> d_HasChanges (rdata s) [''addon_version'', ''service_account_role_arn'', ''configuration_values'']"
    using assms(1-3) by (simp add: d_HasChanges_def)
  from resourceAddonUpdate_unchanged[OF this, of env] assms(4)
  obtain rdiags where rd: "resourceAddonRead env s = (rdiags, s')" "res = Return rdiags"
    by (auto split: prod.splits)
  from resourceAddonRead_new_events[OF rd(1)] obtain c a r where
    ev: "new_events s s' = [] \<or> new_events s s' = [FindAddon_ev c a r] \<or>
         new_events s s' = [FindAddon_ev c a r, SetId_ev []]" by blast
  then have "update_attempts (new_events s s') = []" by auto
  with rd ev show ?thesis by blast
qed

text \<open>
  A run of C8 on a record whose add-on has been deleted remotely.
\<close>

theorem update_without_changes_only_refreshes_witness:
  "resourceAddonUpdate (scripted_env [Some not_found] 3) (world_of established_addon) =
     (Return [],
      (world_of established_addon)
        \<lparr>rdata := established_addon\<lparr>rd_id := []\<rparr>, remote := 1,
          events := [FindAddon_ev ''cluster-a'' ''vpc-cni'' (Some not_found), SetId_ev []]\<rparr>) \<and>
   resourceAddonRead (scripted_env [Some not_found] 3) (world_of established_addon) =
     ([],
      (world_of established_addon)
        \<lparr>rdata := established_addon\<lparr>rd_id := []\<rparr>, remote := 1,
          events := [FindAddon_ev ''cluster-a'' ''vpc-cni'' (Some not_found), SetId_ev []]\<rparr>) \<and>
   update_attempts [FindAddon_ev ''cluster-a'' ''vpc-cni'' (Some not_found), SetId_ev []] = []"
proof -
  have same: "\<not> d_HasChange (rdata (world_of established_addon)) ''addon_version''"
    "\<not> d_HasChange (rdata (world_of established_addon)) ''configuration_values''"
    "\<not> d_HasChange (rdata (world_of established_addon)) ''service_account_role_arn''"
    by (simp_all add: world_of_def established_addon_def d_HasChange_def)
  from update_without_changes_only_refreshes[OF same run_update_unchanged]
  have "resourceAddonRead (scripted_env [Some not_found] 3) (world_of established_addon) =
     ([],
      (world_of established_addon)
        \<lparr>rdata := established_addon\<lparr>rd_id := []\<rparr>, remote := 1,
          events := [FindAddon_ev ''cluster-a'' ''vpc-cni'' (Some not_found), SetId_ev []]\<rparr>)"
    and "update_attempts [FindAddon_ev ''cluster-a'' ''vpc-cni'' (Some not_found), SetId_ev []] = []"
    by simp_all
  with run_update_unchanged show ?thesis by (intro conjI)
qed

text \<open>
  Claim C9 says that a failed wait of an update whose policy is not
  \<^verbatim>\<open>OVERWRITE\<close> returns guidance that names the policy attribute to set.
  \<^verbatim>\<open>conflictResolutionAttr\<close> is assigned only where one of the two policy attributes
  is set: in the run below neither is, the version changes, the update is accepted and
  its wait fails, and the guidance names the empty attribute.
\<close>

theorem update_wait_failure_names_no_attribute:
  \<open>resourceAddonUpdate (scripted_env [None, Some conflict] 3) (world_of version_bumped) =
     (Return
        [\<lparr>Severity = diag_Error,
          Summary = ''waiting for EKS Add-On (cluster-a:vpc-cni) update (update-1): ConfigurationConflict: Apply failed with 1 conflict. Consider setting attribute "" to "OVERWRITE"''\<rparr>],
      (world_of version_bumped)
        \<lparr>remote := 2, uid_count := 1,
          events := [UpdateAddon_ev (update_request\<lparr>Update_AddonVersion := Some ''v1.3.0''\<rparr>) None,
                     AddonUpdateWait_ev ''cluster-a'' ''vpc-cni'' ''update-1'' 1200 (Some conflict)]\<rparr>)\<close>
  by (simp add: run_defs fixture_defs fixture2_defs fixture3_defs update_request_def)

end
